theory Spec2Isabelle
  imports Main "HOL-Library.Signed_Division"
begin

section \<open>Basic block reordering (bb-reorder.c): data model\<close>

text \<open>
  The pass works on the control-flow graph of one function.  Blocks and edges are heap
  objects that the C code reaches through pointers and mutates in place, so the model
  keeps them in two stores inside one state record: a block pointer is \<open>ENTRY_BLOCK_PTR\<close>,
  \<open>EXIT_BLOCK_PTR\<close> or \<open>BB i\<close> (the block whose \<open>index\<close> is \<open>i\<close>), an edge pointer is
  a number, and \<open>NULL\<close> is \<open>None\<close>.  C \<open>int\<close> and \<open>gcov_type\<close> values are integers; the
  division of C truncates towards zero and is written \<open>sdiv\<close>.  Where a claim is about
  overflow the 64-bit range of \<open>gcov_type\<close> is checked explicitly.
\<close>

datatype partition_t = HOT_PARTITION | COLD_PARTITION

datatype basic_block = ENTRY_BLOCK_PTR | EXIT_BLOCK_PTR | BB nat

text \<open>
  The bits of \<open>e->flags\<close> that bb-reorder.c tests.  \<open>EDGE_COMPLEX\<close> is a mask in
  basic-block.h; the file only ever asks whether some bit of the mask is set, which is
  what membership of \<open>EDGE_COMPLEX\<close> stands for here.
\<close>

datatype edge_flag =
  EDGE_FALLTHRU | EDGE_CAN_FALLTHRU | EDGE_COMPLEX | EDGE_DFS_BACK | EDGE_FAKE

type_synonym edge = nat

record edge_def =
  src :: basic_block
  dest :: basic_block
  flags :: "edge_flag set"
  probability :: int
  count_e :: int
  crossing_edge :: bool

text \<open>
  The instructions of a block, as far as the pass looks at them: is the last one a jump
  (\<open>JUMP_P (BB_END (bb))\<close>), does the block start with a label, which label does a jump
  go to.  A jump is \<open>JUMP_INSN c l\<close>: conditional when \<open>c\<close>, to label \<open>l\<close>.
\<close>

datatype rtx = NOTE | CODE_LABEL nat | INSN | CALL_INSN | JUMP_INSN bool nat | BARRIER

record basic_block_def =
  frequency :: int
  count :: int
  partition_bb :: partition_t
  succ :: "edge list"
  pred :: "edge list"
  insns :: "rtx list"
  rbi_next :: "basic_block option"
  rbi_visited :: int
  rbi_footer :: "rtx list"

text \<open>
  \<open>bb_chain\<close> is the chain of real blocks in \<open>next_bb\<close> order, the order in which
  \<open>FOR_EACH_BB\<close> visits them; \<open>n_basic_blocks\<close> is its length.  \<open>last_basic_block\<close>,
  \<open>n_edges\<close> and \<open>label_num\<close> are the allocation counters from which new blocks, edges
  and labels take their numbers.
\<close>

record cfg =
  bb_chain :: "nat list"
  blocks :: "basic_block \<Rightarrow> basic_block_def"
  edges :: "edge \<Rightarrow> edge_def"
  last_basic_block :: nat
  n_edges :: nat
  label_num :: nat
  label_nuses :: "nat \<Rightarrow> int"

definition n_basic_blocks :: "cfg \<Rightarrow> int" where
  "n_basic_blocks st = int (length (bb_chain st))"

text \<open>\<open>bb->index\<close>: the two sentinel blocks have negative indices.\<close>

fun index :: "basic_block \<Rightarrow> int" where
  "index ENTRY_BLOCK_PTR = -1"
| "index EXIT_BLOCK_PTR = -2"
| "index (BB i) = int i"

fun next_in_chain :: "nat list \<Rightarrow> nat \<Rightarrow> basic_block option" where
  "next_in_chain [] i = None"
| "next_in_chain [x] i = (if x = i then Some EXIT_BLOCK_PTR else None)"
| "next_in_chain (x # y # ys) i = (if x = i then Some (BB y) else next_in_chain (y # ys) i)"

fun prev_in_chain :: "basic_block \<Rightarrow> nat list \<Rightarrow> nat \<Rightarrow> basic_block option" where
  "prev_in_chain p [] i = None"
| "prev_in_chain p (x # xs) i = (if x = i then Some p else prev_in_chain (BB x) xs i)"

text \<open>\<open>bb->next_bb\<close> and \<open>bb->prev_bb\<close>, read off the chain.\<close>

fun next_bb :: "cfg \<Rightarrow> basic_block \<Rightarrow> basic_block option" where
  "next_bb st ENTRY_BLOCK_PTR =
     (case bb_chain st of [] \<Rightarrow> Some EXIT_BLOCK_PTR | x # xs \<Rightarrow> Some (BB x))"
| "next_bb st EXIT_BLOCK_PTR = None"
| "next_bb st (BB i) = next_in_chain (bb_chain st) i"

fun prev_bb :: "cfg \<Rightarrow> basic_block \<Rightarrow> basic_block option" where
  "prev_bb st ENTRY_BLOCK_PTR = None"
| "prev_bb st EXIT_BLOCK_PTR =
     (case rev (bb_chain st) of [] \<Rightarrow> Some ENTRY_BLOCK_PTR | x # xs \<Rightarrow> Some (BB x))"
| "prev_bb st (BB i) = prev_in_chain ENTRY_BLOCK_PTR (bb_chain st) i"

text \<open>Writing through a block pointer and through an edge pointer.\<close>

definition upd_bb :: "basic_block \<Rightarrow> (basic_block_def \<Rightarrow> basic_block_def) \<Rightarrow> cfg \<Rightarrow> cfg" where
  "upd_bb b f st = st\<lparr>blocks := (blocks st)(b := f (blocks st b))\<rparr>"

definition upd_edge :: "edge \<Rightarrow> (edge_def \<Rightarrow> edge_def) \<Rightarrow> cfg \<Rightarrow> cfg" where
  "upd_edge e f st = st\<lparr>edges := (edges st)(e := f (edges st e))\<rparr>"

text \<open>
  How a function can fail to return: \<open>abort ()\<close>, the fuel of a loop ran out, or the
  function reads a buffer through a pointer that \<open>xrealloc\<close> has invalidated, after which
  the behaviour of the C program is undefined.
\<close>

datatype failure = ABORT | OUT_OF_FUEL | DANGLING_BUFFER

text \<open>
  What bb-reorder.c takes from the rest of the compiler: the options, the target hooks,
  the profile predicates and the macros of headers that are not part of these sources.
  They are parameters of the model, so every theorem holds whatever they are.
\<close>

record env =
  flag_reorder_blocks_and_partition :: bool
  optimize_size :: bool
  cannot_modify_jumps_p :: bool
  HAS_LONG_COND_BRANCH :: bool
  HAS_LONG_UNCOND_BRANCH :: bool
  probably_never_executed_bb_p :: "cfg \<Rightarrow> basic_block \<Rightarrow> bool"
  maybe_hot_bb_p :: "cfg \<Rightarrow> basic_block \<Rightarrow> bool"
  can_duplicate_block_p :: "cfg \<Rightarrow> basic_block \<Rightarrow> bool"
  get_attr_length :: "rtx \<Rightarrow> int"
  uncond_jump_length :: int
  invert_jump :: "cfg \<Rightarrow> basic_block \<Rightarrow> nat \<Rightarrow> bool"
  duplicate_block :: "cfg \<Rightarrow> basic_block \<Rightarrow> edge \<Rightarrow> cfg \<times> basic_block"
  EDGE_FREQUENCY :: "cfg \<Rightarrow> edge \<Rightarrow> int"
  BB_FREQ_MAX :: int
  REG_BR_PROB_BASE :: int
  cfg_layout_initialize :: "nat \<Rightarrow> cfg \<Rightarrow> cfg"
  cfg_layout_finalize :: "cfg \<Rightarrow> cfg"
  fix_crossing_conditional_branches :: "cfg \<Rightarrow> cfg"
  fix_crossing_unconditional_branches :: "cfg \<Rightarrow> cfg"
  add_reg_crossing_jump_notes :: "cfg \<Rightarrow> cfg"

section \<open>Trace formation\<close>

definition N_ROUNDS :: int where
  "N_ROUNDS = 5"

definition branch_threshold :: "int list" where
  "branch_threshold = [400, 200, 100, 0, 0]"

definition exec_threshold :: "int list" where
  "exec_threshold = [500, 200, 50, 0, 0]"

definition DUPLICATION_THRESHOLD :: int where
  "DUPLICATION_THRESHOLD = 100"

subsection \<open>The thresholds of a round (find_traces)\<close>

definition INT_MAX :: int where
  "INT_MAX = 2147483647"

text \<open>
  Arithmetic in \<open>int\<close>, which has 32 bits.  The mathematical result of an operation
  is brought back into the range from \<open>- INT_MAX - 1\<close> to \<open>INT_MAX\<close> modulo \<open>2 ^ 32\<close>,
  which is what the compiled code computes when a signed operation overflows.
\<close>

definition int_wrap :: "int \<Rightarrow> int" where
  "int_wrap x = (x + 2 ^ 31) mod 2 ^ 32 - 2 ^ 31"

text \<open>
  \<open>gcov_type\<close> is a signed 64-bit integer.  An arithmetic result outside its range is
  an overflow; the model then yields \<open>None\<close>.
\<close>

definition gcov_type_ok :: "int \<Rightarrow> bool" where
  "gcov_type_ok x = (- (2 ^ 63) \<le> x \<and> x < 2 ^ 63)"

definition gcov_checked :: "int \<Rightarrow> int option" where
  "gcov_checked x = (if gcov_type_ok x then Some x else None)"

text \<open>
  The body of the round loop of \<open>find_traces\<close> up to the call of
  \<open>find_traces_1_round\<close>: the value of the local \<open>count_threshold\<close> in round \<open>i\<close>.
  The product and the quotient are computed in \<open>gcov_type\<close>, the bound
  \<open>INT_MAX / 1000\<close> in \<open>int\<close>.
\<close>

definition count_threshold :: "int \<Rightarrow> nat \<Rightarrow> int option" where
  "count_threshold max_entry_count i =
     (if max_entry_count < INT_MAX sdiv 1000
      then map_option (\<lambda>p. p sdiv 1000) (gcov_checked (max_entry_count * exec_threshold ! i))
      else gcov_checked (max_entry_count sdiv 1000 * exec_threshold ! i))"

text \<open>
  \<open>max_entry_count\<close> as \<open>find_traces\<close> computes it: the loop over the successors of the
  entry block starts from 0 and keeps the largest \<open>count\<close> of a destination.
\<close>

fun max_entry_count_loop :: "cfg \<Rightarrow> edge list \<Rightarrow> int \<Rightarrow> int" where
  "max_entry_count_loop st [] m = m"
| "max_entry_count_loop st (e # es) m =
     max_entry_count_loop st es
       (if count (blocks st (dest (edges st e))) > m
        then count (blocks st (dest (edges st e))) else m)"

definition max_entry_count :: "cfg \<Rightarrow> int" where
  "max_entry_count st = max_entry_count_loop st (succ (blocks st ENTRY_BLOCK_PTR)) 0"

subsection \<open>push_to_next_round_p\<close>

definition push_to_next_round_p ::
  "env \<Rightarrow> cfg \<Rightarrow> basic_block \<Rightarrow> int \<Rightarrow> int \<Rightarrow> int \<Rightarrow> int \<Rightarrow> bool" where
  "push_to_next_round_p ev st bb round number_of_rounds exec_th count_th =
     (let there_exists_another_round = round < number_of_rounds - 1;
          cold_block = (flag_reorder_blocks_and_partition ev
                        \<and> partition_bb (blocks st bb) = COLD_PARTITION);
          block_not_hot_enough = (frequency (blocks st bb) < exec_th
                                  \<or> count (blocks st bb) < count_th
                                  \<or> probably_never_executed_bb_p ev st bb)
      in if there_exists_another_round \<and> (cold_block \<or> block_not_hot_enough)
         then True else False)"

subsection \<open>bb_to_key\<close>

text \<open>
  The side table \<open>bbd\<close> of the pass, indexed by \<open>bb->index\<close>.  A heap and a heap node are
  named by numbers.
\<close>

record bbro_basic_block_data =
  start_of_trace :: int
  end_of_trace :: int
  heap :: "nat option"
  node :: "nat option"

text \<open>
  The loop of \<open>bb_to_key\<close> over the predecessor edges of the block.  The key itself is
  computed in \<open>int\<close>, operation by operation.
\<close>

fun bb_to_key_priority ::
  "env \<Rightarrow> cfg \<Rightarrow> (int \<Rightarrow> bbro_basic_block_data) \<Rightarrow> edge list \<Rightarrow> int \<Rightarrow> int" where
  "bb_to_key_priority ev st bbd [] priority = priority"
| "bb_to_key_priority ev st bbd (e # es) priority =
     bb_to_key_priority ev st bbd es
       (if (src (edges st e) \<noteq> ENTRY_BLOCK_PTR
            \<and> end_of_trace (bbd (index (src (edges st e)))) \<ge> 0)
           \<or> EDGE_DFS_BACK \<in> flags (edges st e)
        then (let edge_freq = EDGE_FREQUENCY ev st e
              in if edge_freq > priority then edge_freq else priority)
        else priority)"

definition bb_to_key :: "env \<Rightarrow> cfg \<Rightarrow> (int \<Rightarrow> bbro_basic_block_data) \<Rightarrow> basic_block \<Rightarrow> int" where
  "bb_to_key ev st bbd bb =
     (if partition_bb (blocks st bb) = COLD_PARTITION \<or> probably_never_executed_bb_p ev st bb
      then BB_FREQ_MAX ev
      else (let priority = bb_to_key_priority ev st bbd (pred (blocks st bb)) 0
            in if priority \<noteq> 0
               then int_wrap (- int_wrap (int_wrap (int_wrap (100 * BB_FREQ_MAX ev)
                                                      + int_wrap (100 * priority))
                                           + frequency (blocks st bb)))
               else int_wrap (- frequency (blocks st bb))))"

subsection \<open>The start of a trace in find_traces_1_round\<close>

text \<open>\<open>struct trace\<close>: the first and the last block, the round and the length of a trace.\<close>

record trace =
  first :: basic_block
  last_t :: basic_block
  round_t :: int
  length_t :: int

text \<open>
  Modelled from the spec: the priority heap (fibheap.c) is not part of these sources.  The
  spec asks for \<open>insert(key, value) \<rightarrow> handle\<close>, \<open>extract_min() \<rightarrow> value\<close> and \<open>empty()\<close>,
  with smaller keys first and ties broken by insertion order.  A heap is named by a
  number, as the side table refers to it; its nodes are kept in insertion order, each with
  its handle, its key and its block.
\<close>

record fibheap =
  heap_id :: nat
  next_handle :: nat
  nodes :: "(nat \<times> int \<times> basic_block) list"

definition fibheap_empty :: "fibheap \<Rightarrow> bool" where
  "fibheap_empty h = (nodes h = [])"

fun min_node :: "(nat \<times> int \<times> basic_block) list \<Rightarrow> (nat \<times> int \<times> basic_block) option" where
  "min_node [] = None"
| "min_node (n # ns) =
     (case min_node ns of
        None \<Rightarrow> Some n
      | Some m \<Rightarrow> if fst (snd m) < fst (snd n) then Some m else Some n)"

definition fibheap_extract_min :: "fibheap \<Rightarrow> (basic_block \<times> fibheap) option" where
  "fibheap_extract_min h =
     (case min_node (nodes h) of
        None \<Rightarrow> None
      | Some n \<Rightarrow> Some (snd (snd n), h\<lparr>nodes := remove1 n (nodes h)\<rparr>))"

definition fibheap_insert :: "fibheap \<Rightarrow> int \<Rightarrow> basic_block \<Rightarrow> fibheap \<times> nat" where
  "fibheap_insert h key data =
     (h\<lparr>next_handle := Suc (next_handle h), nodes := nodes h @ [(next_handle h, key, data)]\<rparr>,
      next_handle h)"

text \<open>
  The variables that the loop of \<open>find_traces_1_round\<close> works on: \<open>*heap\<close>, \<open>new_heap\<close>,
  the side table \<open>bbd\<close>, the array \<open>traces\<close> and \<open>*n_traces\<close>.
\<close>

record round_state =
  cur_heap :: fibheap
  new_heap :: fibheap
  round_bbd :: "int \<Rightarrow> bbro_basic_block_data"
  round_traces :: "int \<Rightarrow> trace"
  round_n_traces :: int

text \<open>
  The head of the body of the loop \<open>while (!fibheap_empty (*heap))\<close>.  The block of least
  key is taken out of the heap.  It is either sent to the heap of the next round
  (\<open>continue\<close>), or it becomes the first block of a new trace and the \<open>do\<close> loop that grows
  the trace starts with it.  The result is \<open>None\<close> when the heap is empty; else it has the
  new state and the block that starts a trace, if one does.  \<open>(*n_traces)++\<close> is
  arithmetic in \<open>int\<close>.
\<close>

definition extract_block ::
  "env \<Rightarrow> cfg \<Rightarrow> int \<Rightarrow> int \<Rightarrow> int \<Rightarrow> int \<Rightarrow> round_state
     \<Rightarrow> (round_state \<times> basic_block option) option" where
  "extract_block ev st round number_of_rounds exec_th count_th rs =
     (case fibheap_extract_min (cur_heap rs) of
        None \<Rightarrow> None
      | Some (bb, h) \<Rightarrow>
          (let rs1 = rs\<lparr>cur_heap := h,
                        round_bbd := (round_bbd rs)
                          (index bb := (round_bbd rs (index bb))\<lparr>heap := None, node := None\<rparr>)\<rparr>
           in if push_to_next_round_p ev st bb round number_of_rounds exec_th count_th
              then (let key = bb_to_key ev st (round_bbd rs1) bb;
                        (h1, handle) = fibheap_insert (new_heap rs1) key bb
                    in Some (rs1\<lparr>new_heap := h1,
                                 round_bbd := (round_bbd rs1)
                                   (index bb := (round_bbd rs1 (index bb))
                                      \<lparr>heap := Some (heap_id h1), node := Some handle\<rparr>)\<rparr>,
                             None))
              else Some (rs1\<lparr>round_traces := (round_traces rs1)
                               (round_n_traces rs1 := (round_traces rs1 (round_n_traces rs1))
                                  \<lparr>first := bb, round_t := round, length_t := 0\<rparr>),
                             round_n_traces := int_wrap (round_n_traces rs1 + 1)\<rparr>,
                         Some bb)))"

subsection \<open>better_edge_p\<close>

definition better_edge_p ::
  "env \<Rightarrow> cfg \<Rightarrow> basic_block \<Rightarrow> edge \<Rightarrow> int \<Rightarrow> int \<Rightarrow> int \<Rightarrow> int \<Rightarrow> edge option \<Rightarrow> bool" where
  "better_edge_p ev st bb e prob freq best_prob best_freq cur_best_edge =
     (let diff_prob = best_prob sdiv 10;
          diff_freq = best_freq sdiv 10;
          is_better_edge =
            (if prob > best_prob + diff_prob then True
             else if prob < best_prob - diff_prob then False
             else if freq < best_freq - diff_freq then True
             else if freq > best_freq + diff_freq then False
             else if prev_bb st (dest (edges st e)) = Some bb then True
             else False)
      in if \<not> is_better_edge
            \<and> flag_reorder_blocks_and_partition ev
            \<and> (case cur_best_edge of None \<Rightarrow> False
                | Some c \<Rightarrow> crossing_edge (edges st c) \<and> \<not> crossing_edge (edges st e))
         then True
         else is_better_edge)"

subsection \<open>copy_bb_p\<close>

fun INSN_P :: "rtx \<Rightarrow> bool" where
  "INSN_P INSN = True"
| "INSN_P CALL_INSN = True"
| "INSN_P (JUMP_INSN c l) = True"
| "INSN_P x = False"

definition copy_bb_p :: "env \<Rightarrow> cfg \<Rightarrow> basic_block \<Rightarrow> bool \<Rightarrow> bool" where
  "copy_bb_p ev st bb code_may_grow =
     (if frequency (blocks st bb) = 0 then False
      else if length (pred (blocks st bb)) < 2 then False
      else if \<not> can_duplicate_block_p ev st bb then False
      else if length (succ (blocks st bb)) > 8 then False
      else (let max_size = (if code_may_grow \<and> maybe_hot_bb_p ev st bb
                            then uncond_jump_length ev * 8 else uncond_jump_length ev);
                size = sum_list (map (get_attr_length ev) (filter INSN_P (insns (blocks st bb))))
            in if size \<le> max_size then True else False))"

subsection \<open>The end of a trace step in find_traces_1_round\<close>

text \<open>
  What the code does once \<open>best_edge\<close> is not null (the block \<open>if (best_edge)\<close> at the
  end of the body of the \<open>do\<close> loop).  Either the trace is terminated (\<open>break\<close>), after a
  call of \<open>rotate_loop\<close>, a call of \<open>copy_bb\<close> or nothing, or the trace goes on with an
  edge: \<open>bb->rbi->next\<close> becomes its destination, which is the new \<open>bb\<close>.
\<close>

datatype loop_step = NOTHING | ROTATE_LOOP edge | COPY_BB basic_block edge basic_block

datatype trace_step = TERMINATE loop_step | EXTEND edge

text \<open>The test of the \<open>for\<close> loop that looks for the situation A - B - C described in the code.\<close>

definition through_single_block :: "env \<Rightarrow> cfg \<Rightarrow> edge \<Rightarrow> edge \<Rightarrow> bool" where
  "through_single_block ev st best_edge e =
     (e \<noteq> best_edge
      \<and> EDGE_CAN_FALLTHRU \<in> flags (edges st e)
      \<and> EDGE_COMPLEX \<notin> flags (edges st e)
      \<and> rbi_visited (blocks st (dest (edges st e))) = 0
      \<and> length (pred (blocks st (dest (edges st e)))) < 2
      \<and> \<not> crossing_edge (edges st e)
      \<and> (case succ (blocks st (dest (edges st e))) of
            [] \<Rightarrow> False
          | s # ss \<Rightarrow> EDGE_CAN_FALLTHRU \<in> flags (edges st s)
                      \<and> EDGE_COMPLEX \<notin> flags (edges st s)
                      \<and> ss = []
                      \<and> dest (edges st s) = dest (edges st best_edge))
      \<and> int_wrap (2 * frequency (blocks st (dest (edges st e))))
            \<ge> EDGE_FREQUENCY ev st best_edge)"

definition successor_found :: "env \<Rightarrow> cfg \<Rightarrow> basic_block \<Rightarrow> edge \<Rightarrow> int \<Rightarrow> trace_step" where
  "successor_found ev st bb best_edge n_traces =
     (if rbi_visited (blocks st (dest (edges st best_edge))) = n_traces
      then TERMINATE
             (if dest (edges st best_edge) \<noteq> bb
              then (if EDGE_FREQUENCY ev st best_edge
                         > int_wrap (4 * frequency (blocks st (dest (edges st best_edge)))) sdiv 5
                    then (if Some (dest (edges st best_edge)) \<noteq> next_bb st ENTRY_BLOCK_PTR
                          then ROTATE_LOOP best_edge
                          else NOTHING)
                    else (if find (\<lambda>another_edge. another_edge \<noteq> best_edge) (succ (blocks st bb)) = None
                             \<and> copy_bb_p ev st (dest (edges st best_edge)) (\<not> optimize_size ev)
                          then COPY_BB (dest (edges st best_edge)) best_edge bb
                          else NOTHING))
              else NOTHING)
      else EXTEND (case find (through_single_block ev st best_edge) (succ (blocks st bb)) of
                     Some e \<Rightarrow> e
                   | None \<Rightarrow> best_edge))"

section \<open>Connecting the traces\<close>

text \<open>
  The state that \<open>connect_traces\<close> works on: the graph, the side table \<open>bbd\<close> with its
  size, the array \<open>traces\<close>, and the locals of the function that live across its loops.
  \<open>duplicated\<close> is not a variable of the program: it records the calls of
  \<open>duplicate_block\<close>, each with the block copied and the edge redirected, so that the
  theorems can say whether a block was copied.
\<close>

record connect_state =
  graph :: cfg
  bbd :: "int \<Rightarrow> bbro_basic_block_data"
  array_size :: int
  traces :: "int \<Rightarrow> trace"
  connected :: "int \<Rightarrow> bool"
  cold_traces :: "int \<Rightarrow> bool"
  unconnected_hot_trace_count :: int
  cold_connected :: bool
  last_trace :: int
  duplicated :: "(basic_block \<times> edge) list"

definition GET_ARRAY_SIZE :: "int \<Rightarrow> int" where
  "GET_ARRAY_SIZE x = ((x sdiv 4) + 1) * 5"

subsection \<open>copy_bb\<close>

text \<open>
  \<open>duplicate_block\<close> belongs to the CFG hooks and comes from the environment.  The new
  block is linked behind \<open>bb\<close>, and the side table grows when the new index does not fit.
\<close>

definition copy_bb ::
  "env \<Rightarrow> basic_block \<Rightarrow> edge \<Rightarrow> basic_block \<Rightarrow> int \<Rightarrow> connect_state
     \<Rightarrow> failure + connect_state \<times> basic_block" where
  "copy_bb ev old_bb e bb trace_n cs =
     (let (g1, new_bb) = duplicate_block ev (graph cs) old_bb e
      in if dest (edges g1 e) \<noteq> new_bb then Inl ABORT
         else if rbi_visited (blocks g1 (dest (edges g1 e))) \<noteq> 0 then Inl ABORT
         else (let g2 = upd_bb new_bb (\<lambda>x. x\<lparr>rbi_visited := trace_n\<rparr>) g1;
                   g3 = upd_bb new_bb (\<lambda>x. x\<lparr>rbi_next := rbi_next (blocks g2 bb)\<rparr>) g2;
                   g4 = upd_bb bb (\<lambda>x. x\<lparr>rbi_next := Some new_bb\<rparr>) g3;
                   cs1 = cs\<lparr>graph := g4, duplicated := duplicated cs @ [(old_bb, e)]\<rparr>
               in if index new_bb \<ge> array_size cs1
                     \<or> int (last_basic_block g4) > array_size cs1
                  then (let new_size = GET_ARRAY_SIZE
                                         (max (int (last_basic_block g4)) (index new_bb + 1))
                        in Inr (cs1\<lparr>bbd := (\<lambda>i. if array_size cs1 \<le> i \<and> i < new_size
                                                 then \<lparr>start_of_trace = -1, end_of_trace = -1,
                                                       heap = None, node = None\<rparr>
                                                 else bbd cs1 i),
                                     array_size := new_size\<rparr>,
                                 new_bb))
                  else Inr (cs1, new_bb)))"

subsection \<open>connect_traces\<close>

text \<open>The first loop: with partitioning, the cold traces are set aside.\<close>

fun mark_cold_traces :: "int list \<Rightarrow> connect_state \<Rightarrow> connect_state" where
  "mark_cold_traces [] cs = cs"
| "mark_cold_traces (i # is) cs =
     mark_cold_traces is
       (if partition_bb (blocks (graph cs) (first (traces cs i))) = COLD_PARTITION
        then cs\<lparr>connected := (connected cs)(i := True),
                cold_traces := (cold_traces cs)(i := True),
                cold_connected := False\<rparr>
        else cs\<lparr>unconnected_hot_trace_count := unconnected_hot_trace_count cs + 1\<rparr>)"

text \<open>The loop that puts the cold traces back into play; it yields \<open>first_cold_trace\<close>.\<close>

fun unmark_cold_traces :: "int list \<Rightarrow> connect_state \<times> int \<Rightarrow> connect_state \<times> int" where
  "unmark_cold_traces [] (cs, first_cold_trace) = (cs, first_cold_trace)"
| "unmark_cold_traces (j # js) (cs, first_cold_trace) =
     unmark_cold_traces js
       (if cold_traces cs j
        then (cs\<lparr>connected := (connected cs)(j := False)\<rparr>,
              if first_cold_trace = -1 then j else first_cold_trace)
        else (cs, first_cold_trace))"

definition count_down :: "connect_state \<Rightarrow> connect_state" where
  "count_down cs =
     (if unconnected_hot_trace_count cs > 0
      then cs\<lparr>unconnected_hot_trace_count := unconnected_hot_trace_count cs - 1\<rparr> else cs)"

text \<open>The search among the predecessor edges of the first block of trace \<open>t2\<close>.\<close>

fun best_predecessor ::
  "connect_state \<Rightarrow> edge list \<Rightarrow> edge option \<times> int \<Rightarrow> edge option \<times> int" where
  "best_predecessor cs [] (best, best_len) = (best, best_len)"
| "best_predecessor cs (e # es) (best, best_len) =
     best_predecessor cs es
       (let g = graph cs; si = index (src (edges g e))
        in if src (edges g e) \<noteq> ENTRY_BLOCK_PTR
              \<and> EDGE_CAN_FALLTHRU \<in> flags (edges g e)
              \<and> EDGE_COMPLEX \<notin> flags (edges g e)
              \<and> end_of_trace (bbd cs si) \<ge> 0
              \<and> \<not> connected cs (end_of_trace (bbd cs si))
              \<and> (case best of
                    None \<Rightarrow> True
                  | Some b \<Rightarrow> probability (edges g e) > probability (edges g b)
                              \<or> (probability (edges g e) = probability (edges g b)
                                  \<and> length_t (traces cs (end_of_trace (bbd cs si))) > best_len))
           then (Some e, length_t (traces cs (end_of_trace (bbd cs si))))
           else (best, best_len))"

fun connect_predecessors ::
  "nat \<Rightarrow> int \<Rightarrow> connect_state \<Rightarrow> failure + connect_state \<times> int" where
  "connect_predecessors 0 t2 cs = Inl OUT_OF_FUEL"
| "connect_predecessors (Suc fuel) t2 cs =
     (if t2 > 0
      then (case best_predecessor cs (pred (blocks (graph cs) (first (traces cs t2)))) (None, 0) of
              (Some best, best_len) \<Rightarrow>
                (let g = graph cs;
                     cs1 = cs\<lparr>graph := upd_bb (src (edges g best))
                                          (\<lambda>x. x\<lparr>rbi_next := Some (dest (edges g best))\<rparr>) g\<rparr>;
                     t2' = end_of_trace (bbd cs1 (index (src (edges g best))))
                 in connect_predecessors fuel t2'
                      (count_down (cs1\<lparr>connected := (connected cs1)(t2' := True)\<rparr>)))
            | (None, best_len) \<Rightarrow> Inr (cs, t2))
      else Inr (cs, t2))"

text \<open>The search among the successor edges of the last block of trace \<open>t\<close>.\<close>

fun best_successor ::
  "connect_state \<Rightarrow> edge list \<Rightarrow> edge option \<times> int \<Rightarrow> edge option \<times> int" where
  "best_successor cs [] (best, best_len) = (best, best_len)"
| "best_successor cs (e # es) (best, best_len) =
     best_successor cs es
       (let g = graph cs; di = index (dest (edges g e))
        in if dest (edges g e) \<noteq> EXIT_BLOCK_PTR
              \<and> EDGE_CAN_FALLTHRU \<in> flags (edges g e)
              \<and> EDGE_COMPLEX \<notin> flags (edges g e)
              \<and> start_of_trace (bbd cs di) \<ge> 0
              \<and> \<not> connected cs (start_of_trace (bbd cs di))
              \<and> (case best of
                    None \<Rightarrow> True
                  | Some b \<Rightarrow> probability (edges g e) > probability (edges g b)
                              \<or> (probability (edges g e) = probability (edges g b)
                                  \<and> length_t (traces cs (start_of_trace (bbd cs di))) > best_len))
           then (Some e, length_t (traces cs (start_of_trace (bbd cs di))))
           else (best, best_len))"

text \<open>
  The two nested searches of the connection by duplication.  The inner one runs over the
  successors \<open>e2\<close> of the destination of \<open>e\<close>; its state is
  \<open>(best, best2, best2_len, next_bb, try_copy)\<close>.
\<close>

fun duplication_target ::
  "env \<Rightarrow> int \<Rightarrow> int \<Rightarrow> connect_state \<Rightarrow> edge \<Rightarrow> edge list
     \<Rightarrow> edge option \<times> edge option \<times> int \<times> basic_block option \<times> bool
     \<Rightarrow> edge option \<times> edge option \<times> int \<times> basic_block option \<times> bool" where
  "duplication_target ev freq_threshold cnt_threshold cs e [] acc = acc"
| "duplication_target ev freq_threshold cnt_threshold cs e (e2 # es)
       (best, best2, best2_len, next_block, try_copy) =
     duplication_target ev freq_threshold cnt_threshold cs e es
       (let g = graph cs; di = index (dest (edges g e2))
        in if dest (edges g e2) = EXIT_BLOCK_PTR
              \<or> (EDGE_CAN_FALLTHRU \<in> flags (edges g e2)
                  \<and> EDGE_COMPLEX \<notin> flags (edges g e2)
                  \<and> start_of_trace (bbd cs di) \<ge> 0
                  \<and> \<not> connected cs (start_of_trace (bbd cs di))
                  \<and> EDGE_FREQUENCY ev g e2 \<ge> freq_threshold
                  \<and> count_e (edges g e2) \<ge> cnt_threshold
                  \<and> (case best2 of
                        None \<Rightarrow> True
                      | Some b2 \<Rightarrow>
                          probability (edges g e2) > probability (edges g b2)
                          \<or> (probability (edges g e2) = probability (edges g b2)
                              \<and> length_t (traces cs (start_of_trace (bbd cs di))) > best2_len)))
           then (Some e, Some e2,
                 (if dest (edges g e2) \<noteq> EXIT_BLOCK_PTR
                  then length_t (traces cs (start_of_trace (bbd cs di))) else INT_MAX),
                 Some (dest (edges g e2)), True)
           else (best, best2, best2_len, next_block, try_copy))"

fun duplication_candidate ::
  "env \<Rightarrow> int \<Rightarrow> int \<Rightarrow> connect_state \<Rightarrow> edge list
     \<Rightarrow> edge option \<times> basic_block option \<times> bool
     \<Rightarrow> edge option \<times> basic_block option \<times> bool" where
  "duplication_candidate ev freq_threshold cnt_threshold cs [] acc = acc"
| "duplication_candidate ev freq_threshold cnt_threshold cs (e # es) (best, next_block, try_copy) =
     duplication_candidate ev freq_threshold cnt_threshold cs es
       (let g = graph cs
        in if dest (edges g e) \<noteq> EXIT_BLOCK_PTR
              \<and> EDGE_CAN_FALLTHRU \<in> flags (edges g e)
              \<and> EDGE_COMPLEX \<notin> flags (edges g e)
              \<and> (case best of
                    None \<Rightarrow> True
                  | Some b \<Rightarrow> probability (edges g e) > probability (edges g b))
           then (if start_of_trace (bbd cs (index (dest (edges g e)))) \<ge> 0
                    \<and> length_t (traces cs (start_of_trace (bbd cs (index (dest (edges g e)))))) = 1
                 then (Some e, next_block, True)
                 else (case duplication_target ev freq_threshold cnt_threshold cs e
                              (succ (blocks g (dest (edges g e))))
                              (best, None, 0, next_block, try_copy) of
                         (best', best2, best2_len, next_block', try_copy') \<Rightarrow>
                           (best', next_block', try_copy')))
           else (best, next_block, try_copy))"

text \<open>
  The \<open>else\<close> branch of the successor loop: try to connect by duplicating one block.
  The result is the new state and the trace with which the loop goes on, or \<open>None\<close>
  where the code leaves the loop (\<open>break\<close>).
\<close>

definition connect_by_duplication ::
  "env \<Rightarrow> int \<Rightarrow> int \<Rightarrow> int \<Rightarrow> connect_state \<Rightarrow> failure + connect_state \<times> int option" where
  "connect_by_duplication ev freq_threshold cnt_threshold t cs =
     (case duplication_candidate ev freq_threshold cnt_threshold cs
             (succ (blocks (graph cs) (last_t (traces cs t)))) (None, None, False) of
        (best, next_block, found) \<Rightarrow>
          (let try_copy = (if flag_reorder_blocks_and_partition ev then False else found)
           in case best of
                None \<Rightarrow> Inr (cs, None)
              | Some b \<Rightarrow>
                  if try_copy
                     \<and> copy_bb_p ev (graph cs) (dest (edges (graph cs) b))
                          (\<not> optimize_size ev
                           \<and> EDGE_FREQUENCY ev (graph cs) b \<ge> freq_threshold
                           \<and> count_e (edges (graph cs) b) \<ge> cnt_threshold)
                  then (case copy_bb ev (dest (edges (graph cs) b)) b (last_t (traces cs t)) t cs of
                          Inl f \<Rightarrow> Inl f
                        | Inr (cs1, new_bb) \<Rightarrow>
                            (let cs2 = cs1\<lparr>traces := (traces cs1)(t := (traces cs1 t)\<lparr>last_t := new_bb\<rparr>)\<rparr>
                             in case next_block of
                                  None \<Rightarrow> Inr (cs2, None)
                                | Some nb \<Rightarrow>
                                    if nb \<noteq> EXIT_BLOCK_PTR
                                    then (let t' = start_of_trace (bbd cs2 (index nb));
                                              g = graph cs2;
                                              cs3 = cs2\<lparr>graph :=
                                                      upd_bb (last_t (traces cs2 (last_trace cs2)))
                                                        (\<lambda>x. x\<lparr>rbi_next := Some (first (traces cs2 t'))\<rparr>) g\<rparr>
                                          in Inr ((count_down
                                                     (cs3\<lparr>connected := (connected cs3)(t' := True)\<rparr>))
                                                    \<lparr>last_trace := t'\<rparr>,
                                                  Some t'))
                                    else Inr (cs2, None)))
                  else Inr (cs, None)))"

text \<open>The loop \<open>while (1)\<close> that finds the successor traces of trace \<open>t\<close>.\<close>

fun connect_successors ::
  "nat \<Rightarrow> env \<Rightarrow> int \<Rightarrow> int \<Rightarrow> int \<Rightarrow> connect_state \<Rightarrow> failure + connect_state" where
  "connect_successors 0 ev freq_threshold cnt_threshold t cs = Inl OUT_OF_FUEL"
| "connect_successors (Suc fuel) ev freq_threshold cnt_threshold t cs =
     (case best_successor cs (succ (blocks (graph cs) (last_t (traces cs t)))) (None, 0) of
        (Some best, best_len) \<Rightarrow>
          (let g = graph cs;
               t' = start_of_trace (bbd cs (index (dest (edges g best))));
               cs1 = cs\<lparr>graph := upd_bb (last_t (traces cs (last_trace cs)))
                                    (\<lambda>x. x\<lparr>rbi_next := Some (first (traces cs t'))\<rparr>) g\<rparr>
           in connect_successors fuel ev freq_threshold cnt_threshold t'
                ((count_down (cs1\<lparr>connected := (connected cs1)(t' := True)\<rparr>))\<lparr>last_trace := t'\<rparr>))
      | (None, best_len) \<Rightarrow>
          (case connect_by_duplication ev freq_threshold cnt_threshold t cs of
             Inl f \<Rightarrow> Inl f
           | Inr (cs1, Some t') \<Rightarrow> connect_successors fuel ev freq_threshold cnt_threshold t' cs1
           | Inr (cs1, None) \<Rightarrow> Inr cs1))"

text \<open>The main loop over \<open>i\<close>.  The inner loops get the fuel that is left.\<close>

fun connect_traces_loop ::
  "nat \<Rightarrow> env \<Rightarrow> int \<Rightarrow> int \<Rightarrow> int \<Rightarrow> int \<Rightarrow> connect_state \<Rightarrow> failure + connect_state" where
  "connect_traces_loop 0 ev n_traces freq_threshold cnt_threshold i cs = Inl OUT_OF_FUEL"
| "connect_traces_loop (Suc fuel) ev n_traces freq_threshold cnt_threshold i cs =
     (if i < n_traces \<or> \<not> cold_connected cs
      then (case (if flag_reorder_blocks_and_partition ev
                     \<and> (i \<ge> n_traces \<or> unconnected_hot_trace_count cs \<le> 0)
                     \<and> \<not> cold_connected cs
                  then (case unmark_cold_traces (map int [0..<nat n_traces]) (cs, -1) of
                          (cs', first_cold_trace) \<Rightarrow>
                            (cs'\<lparr>cold_connected := True\<rparr>, first_cold_trace))
                  else (cs, i)) of
              (cs1, t) \<Rightarrow>
                if connected cs1 t
                then connect_traces_loop fuel ev n_traces freq_threshold cnt_threshold (t + 1) cs1
                else (case connect_predecessors fuel t
                             (count_down (cs1\<lparr>connected := (connected cs1)(t := True)\<rparr>)) of
                        Inl f \<Rightarrow> Inl f
                      | Inr (cs2, t2) \<Rightarrow>
                          (let cs3 = (if last_trace cs2 \<ge> 0
                                      then cs2\<lparr>graph :=
                                             upd_bb (last_t (traces cs2 (last_trace cs2)))
                                               (\<lambda>x. x\<lparr>rbi_next := Some (first (traces cs2 t2))\<rparr>)
                                               (graph cs2)\<rparr>
                                      else cs2)
                           in case connect_successors fuel ev freq_threshold cnt_threshold t
                                     (cs3\<lparr>last_trace := t\<rparr>) of
                                Inl f \<Rightarrow> Inl f
                              | Inr cs4 \<Rightarrow>
                                  connect_traces_loop fuel ev n_traces freq_threshold
                                    cnt_threshold (t + 1) cs4)))
      else Inr cs)"

text \<open>
  \<open>connect_traces\<close>.  \<open>max_entry_frequency\<close> and \<open>max_entry_count\<close> are the globals that
  \<open>find_traces\<close> has set.  The arrays \<open>connected\<close> and \<open>cold_traces\<close> come zeroed from
  \<open>xcalloc\<close>.
\<close>

definition connect_traces ::
  "nat \<Rightarrow> env \<Rightarrow> int \<Rightarrow> int \<Rightarrow> int \<Rightarrow> connect_state \<Rightarrow> failure + connect_state" where
  "connect_traces fuel ev max_entry_frequency max_entry_cnt n_traces cs =
     (let freq_threshold = (max_entry_frequency * DUPLICATION_THRESHOLD) sdiv 1000;
          cnt_threshold = (if max_entry_cnt < INT_MAX sdiv 1000
                             then (max_entry_cnt * DUPLICATION_THRESHOLD) sdiv 1000
                             else max_entry_cnt sdiv 1000 * DUPLICATION_THRESHOLD);
          cs0 = cs\<lparr>connected := (\<lambda>i. False), cold_traces := (\<lambda>i. False),
                   unconnected_hot_trace_count := 0, cold_connected := True,
                   last_trace := -1\<rparr>;
          cs1 = (if flag_reorder_blocks_and_partition ev
                 then mark_cold_traces (map int [0..<nat n_traces]) cs0 else cs0)
      in connect_traces_loop fuel ev n_traces freq_threshold cnt_threshold 0 cs1)"

section \<open>Partitioning into hot and cold blocks\<close>

subsection \<open>find_rarely_executed_basic_blocks_and_crossing_edges\<close>

text \<open>The first loop: every block of the chain gets its partition.\<close>

fun mark_partitions :: "env \<Rightarrow> nat list \<Rightarrow> cfg \<Rightarrow> cfg" where
  "mark_partitions ev [] st = st"
| "mark_partitions ev (i # bbs) st =
     mark_partitions ev bbs
       (if probably_never_executed_bb_p ev st (BB i)
        then upd_bb (BB i) (\<lambda>b. b\<lparr>partition_bb := COLD_PARTITION\<rparr>) st
        else upd_bb (BB i) (\<lambda>b. b\<lparr>partition_bb := HOT_PARTITION\<rparr>) st)"

text \<open>
  The buffer \<open>crossing_edges\<close> as the function sees it: the entries stored so far (their
  number is the local \<open>i\<close>), the capacity \<open>*max_idx\<close>, and whether \<open>xrealloc\<close> has been
  called.  The function receives the pointer to the buffer by value, so after a call of
  \<open>xrealloc\<close> the pointer that the caller holds is no longer the buffer.
\<close>

record crossing_buffer =
  crossing_edges_buf :: "edge list"
  max_idx_buf :: nat
  reallocated :: bool

text \<open>
  The second loop, over the successor edges of one block and over the blocks.  The edges
  found crossing are stored in the buffer in the order in which they are met; when the
  buffer is full its capacity is doubled first.
\<close>

fun mark_crossing_succ ::
  "edge list \<Rightarrow> cfg \<times> crossing_buffer \<Rightarrow> cfg \<times> crossing_buffer" where
  "mark_crossing_succ [] (st, buf) = (st, buf)"
| "mark_crossing_succ (e # es) (st, buf) =
     mark_crossing_succ es
       (if src (edges st e) \<noteq> ENTRY_BLOCK_PTR
           \<and> dest (edges st e) \<noteq> EXIT_BLOCK_PTR
           \<and> partition_bb (blocks st (src (edges st e)))
               \<noteq> partition_bb (blocks st (dest (edges st e)))
        then (upd_edge e (\<lambda>x. x\<lparr>crossing_edge := True\<rparr>) st,
              (let buf1 = (if length (crossing_edges_buf buf) = max_idx_buf buf
                           then buf\<lparr>max_idx_buf := max_idx_buf buf * 2, reallocated := True\<rparr>
                           else buf)
               in buf1\<lparr>crossing_edges_buf := crossing_edges_buf buf1 @ [e]\<rparr>))
        else (upd_edge e (\<lambda>x. x\<lparr>crossing_edge := False\<rparr>) st, buf))"

fun mark_crossing_bbs ::
  "nat list \<Rightarrow> cfg \<times> crossing_buffer \<Rightarrow> cfg \<times> crossing_buffer" where
  "mark_crossing_bbs [] (st, buf) = (st, buf)"
| "mark_crossing_bbs (i # bbs) (st, buf) =
     mark_crossing_bbs bbs (mark_crossing_succ (succ (blocks st (BB i))) (st, buf))"

text \<open>
  The function is called with an empty buffer of capacity \<open>max_idx\<close>.  It hands back the
  state and the buffer; \<open>*n_crossing_edges\<close> is the number of entries.
\<close>

definition find_rarely_executed_basic_blocks_and_crossing_edges ::
  "env \<Rightarrow> nat \<Rightarrow> cfg \<Rightarrow> cfg \<times> crossing_buffer" where
  "find_rarely_executed_basic_blocks_and_crossing_edges ev max_idx st =
     mark_crossing_bbs (bb_chain st)
       (mark_partitions ev (bb_chain st) st,
        \<lparr>crossing_edges_buf = [], max_idx_buf = max_idx, reallocated = False\<rparr>)"

text \<open>
  The test of the second loop of \<open>find_rarely_executed_basic_blocks_and_crossing_edges\<close>:
  the edge joins two real blocks of different partitions.
\<close>

definition crosses :: "cfg \<Rightarrow> edge \<Rightarrow> bool" where
  "crosses st e = (src (edges st e) \<noteq> ENTRY_BLOCK_PTR
           \<and> dest (edges st e) \<noteq> EXIT_BLOCK_PTR
           \<and> partition_bb (blocks st (src (edges st e)))
               \<noteq> partition_bb (blocks st (dest (edges st e))))"

subsection \<open>add_labels_and_missing_jumps\<close>

fun JUMP_P :: "rtx \<Rightarrow> bool" where
  "JUMP_P (JUMP_INSN c l) = True"
| "JUMP_P x = False"

text \<open>\<open>JUMP_P (BB_END (bb))\<close>: the last instruction of the block is a jump.\<close>

definition jump_at_end :: "cfg \<Rightarrow> basic_block \<Rightarrow> bool" where
  "jump_at_end st b = (insns (blocks st b) \<noteq> [] \<and> JUMP_P (last (insns (blocks st b))))"

text \<open>
  Modelled from the spec: \<open>block_label\<close> (cfgrtl.c) is not part of these sources.  The
  spec lists it as \<open>block_label(bb) \<rightarrow> label\<close> and uses it to "ensure the destination has
  a label": the label at the head of the block is returned, and a block without one gets
  a new label first.
\<close>

definition block_label :: "basic_block \<Rightarrow> cfg \<Rightarrow> cfg \<times> nat" where
  "block_label b st =
     (case insns (blocks st b) of
        CODE_LABEL l # rest \<Rightarrow> (st, l)
      | _ \<Rightarrow> (upd_bb b (\<lambda>x. x\<lparr>insns := CODE_LABEL (label_num st) # insns x\<rparr>)
                (st\<lparr>label_num := Suc (label_num st),
                    label_nuses := (label_nuses st)(label_num st := 0)\<rparr>),
              label_num st))"

text \<open>
  The body of the loop for one entry of \<open>crossing_edges\<close>; a null entry is \<open>None\<close>.
  \<open>emit_jump_insn_after\<close> puts the new jump at the end of the source block.  The barrier
  emitted after it is unlinked from the instruction chain at once and becomes the footer
  of the block, so it never shows among the instructions.
\<close>

definition add_label_and_missing_jump :: "edge option \<Rightarrow> cfg \<Rightarrow> failure + cfg" where
  "add_label_and_missing_jump c st =
     (case c of
        None \<Rightarrow> Inr st
      | Some e \<Rightarrow>
          (let src_bb = src (edges st e); dest_bb = dest (edges st e)
           in if dest_bb \<noteq> EXIT_BLOCK_PTR
              then (let (st1, label) = block_label dest_bb st
                    in if src_bb \<noteq> ENTRY_BLOCK_PTR
                       then (if \<not> jump_at_end st1 src_bb
                             then (if length (succ (blocks st1 src_bb)) = 1
                                   then (let (st2, label) = block_label dest_bb st1;
                                             st3 = upd_bb src_bb
                                                     (\<lambda>x. x\<lparr>insns := insns x @ [JUMP_INSN False label]\<rparr>) st2;
                                             st4 = st3\<lparr>label_nuses :=
                                                         (label_nuses st3)(label := label_nuses st3 label + 1)\<rparr>;
                                             st5 = upd_bb src_bb (\<lambda>x. x\<lparr>rbi_footer := [BARRIER]\<rparr>) st4
                                         in Inr (upd_edge e (\<lambda>x. x\<lparr>flags := flags x - {EDGE_FALLTHRU}\<rparr>) st5))
                                   else Inl ABORT)
                             else Inr st1)
                       else Inr st1)
              else Inr st))"

fun add_labels_and_missing_jumps :: "edge option list \<Rightarrow> cfg \<Rightarrow> failure + cfg" where
  "add_labels_and_missing_jumps [] st = Inr st"
| "add_labels_and_missing_jumps (c # crossing_edges) st =
     (case add_label_and_missing_jump c st of
        Inl f \<Rightarrow> Inl f
      | Inr st' \<Rightarrow> add_labels_and_missing_jumps crossing_edges st')"

subsection \<open>fix_up_fall_thru_edges\<close>

fun insert_after :: "nat \<Rightarrow> nat \<Rightarrow> nat list \<Rightarrow> nat list" where
  "insert_after i n [] = []"
| "insert_after i n (x # xs) = (if x = i then x # n # xs else x # insert_after i n xs)"

text \<open>
  Modelled from the spec: \<open>force_nonfallthru\<close> (cfgrtl.c) is not part of these sources.
  The spec lists it as \<open>force_nonfallthru(edge) \<rightarrow> block?\<close> and has
  \<open>fix_up_fall_thru_edges\<close> "insert a new block to break the fall-through" through it.
  The edge stops being a fall-through: a jump to the label of its destination is emitted.
  When the source has only this successor the jump goes to the end of the source and no
  block is made.  Otherwise a new block holding the jump is created behind the source in
  the block chain; a new fall-through edge leads from the source into it and the old edge
  now leaves the new block.  A block made by \<open>create_basic_block\<close> has no partition yet;
  its field reads \<open>HOT_PARTITION\<close> until the caller overwrites it.
\<close>

definition force_nonfallthru :: "env \<Rightarrow> edge \<Rightarrow> cfg \<Rightarrow> cfg \<times> basic_block option" where
  "force_nonfallthru ev e st =
     (let s = src (edges st e);
          (st1, label) = block_label (dest (edges st e)) st;
          st2 = st1\<lparr>label_nuses := (label_nuses st1)(label := label_nuses st1 label + 1)\<rparr>
      in if length (succ (blocks st2 s)) > 1
         then (let nb = last_basic_block st2; ne = n_edges st2;
                   new_block = \<lparr>frequency = EDGE_FREQUENCY ev st e, count = count_e (edges st e),
                                partition_bb = HOT_PARTITION, succ = [e], pred = [ne],
                                insns = [NOTE, JUMP_INSN False label], rbi_next = None,
                                rbi_visited = 0, rbi_footer = []\<rparr>;
                   new_edge = \<lparr>src = s, dest = BB nb, flags = {EDGE_FALLTHRU},
                               probability = probability (edges st e),
                               count_e = count_e (edges st e), crossing_edge = False\<rparr>;
                   st3 = st2\<lparr>bb_chain := (case s of BB i \<Rightarrow> insert_after i nb (bb_chain st2)
                                              | ENTRY_BLOCK_PTR \<Rightarrow> nb # bb_chain st2
                                              | EXIT_BLOCK_PTR \<Rightarrow> bb_chain st2),
                             blocks := (blocks st2)(BB nb := new_block),
                             edges := (edges st2)(ne := new_edge),
                             last_basic_block := Suc nb, n_edges := Suc ne\<rparr>;
                   st4 = upd_bb s (\<lambda>x. x\<lparr>succ := ne # removeAll e (succ x)\<rparr>) st3
               in (upd_edge e (\<lambda>x. x\<lparr>src := BB nb, flags := flags x - {EDGE_FALLTHRU},
                                      probability := REG_BR_PROB_BASE ev\<rparr>) st4,
                   Some (BB nb)))
         else (upd_edge e (\<lambda>x. x\<lparr>flags := flags x - {EDGE_FALLTHRU}\<rparr>)
                 (upd_bb s (\<lambda>x. x\<lparr>insns := insns x @ [JUMP_INSN False label]\<rparr>) st2),
               None))"

text \<open>
  The search for the fall-through edge among the first two successors: the result is
  \<open>(fall_thru, cond_jump)\<close>.
\<close>

definition find_fall_thru :: "cfg \<Rightarrow> basic_block \<Rightarrow> edge option \<times> edge option" where
  "find_fall_thru st cur_bb =
     (let succ1 = (case succ (blocks st cur_bb) of [] \<Rightarrow> None | e # es \<Rightarrow> Some e);
          succ2 = (case succ (blocks st cur_bb) of e # e' # es \<Rightarrow> Some e' | _ \<Rightarrow> None)
      in if (case succ1 of None \<Rightarrow> False | Some e \<Rightarrow> EDGE_FALLTHRU \<in> flags (edges st e))
         then (succ1, succ2)
         else if (case succ2 of None \<Rightarrow> False | Some e \<Rightarrow> EDGE_FALLTHRU \<in> flags (edges st e))
         then (succ2, succ1)
         else (None, None))"

text \<open>
  Modelled from the spec: \<open>invert_jump\<close> (jump.c) is not part of these sources.  Whether
  the jump at the end of the block can be inverted is the environment's \<open>invert_jump\<close>;
  when it can, the jump now goes to the given label.
\<close>

definition invert_jump_at_end :: "env \<Rightarrow> basic_block \<Rightarrow> nat \<Rightarrow> cfg \<Rightarrow> cfg \<times> bool" where
  "invert_jump_at_end ev cur_bb label st =
     (if insns (blocks st cur_bb) \<noteq> [] \<and> invert_jump ev st cur_bb label
      then (upd_bb cur_bb
              (\<lambda>x. x\<lparr>insns := butlast (insns x)
                          @ [case last (insns x) of JUMP_INSN c l \<Rightarrow> JUMP_INSN c label | i \<Rightarrow> i]\<rparr>) st,
            True)
      else (st, False))"

text \<open>
  The body of the loop of \<open>fix_up_fall_thru_edges\<close> for one block.  It returns the new
  state and the block that \<open>force_nonfallthru\<close> created, if any.
\<close>

definition fix_up_fall_thru_edge :: "env \<Rightarrow> basic_block \<Rightarrow> cfg \<Rightarrow> cfg \<times> basic_block option" where
  "fix_up_fall_thru_edge ev cur_bb st =
     (case find_fall_thru st cur_bb of
        (None, cj) \<Rightarrow> (st, None)
      | (Some fall_thru, cond_jump) \<Rightarrow>
          if dest (edges st fall_thru) \<noteq> EXIT_BLOCK_PTR \<and> crossing_edge (edges st fall_thru)
          then (let cond_jump_crosses =
                      (case cond_jump of None \<Rightarrow> True | Some cj \<Rightarrow> crossing_edge (edges st cj));
                    (st1, invert_worked) =
                      (case cond_jump of
                         None \<Rightarrow> (st, False)
                       | Some cj \<Rightarrow>
                           if \<not> cond_jump_crosses
                              \<and> rbi_next (blocks st cur_bb) = Some (dest (edges st cj))
                           then (let (sa, fall_thru_label) = block_label (dest (edges st fall_thru)) st;
                                     (sb, worked) = invert_jump_at_end ev cur_bb fall_thru_label sa
                                 in if worked
                                    then (upd_edge cj (\<lambda>x. x\<lparr>crossing_edge := False\<rparr>)
                                           (upd_edge fall_thru (\<lambda>x. x\<lparr>crossing_edge := True\<rparr>)
                                             (upd_edge cj (\<lambda>x. x\<lparr>flags := insert EDGE_FALLTHRU (flags x)\<rparr>)
                                               (upd_edge fall_thru
                                                  (\<lambda>x. x\<lparr>flags := flags x - {EDGE_FALLTHRU}\<rparr>) sb))),
                                          True)
                                    else (sb, False))
                           else (st, False))
                in if cond_jump_crosses \<or> \<not> invert_worked
                   then (case force_nonfallthru ev fall_thru st1 of
                           (st2, Some new_bb) \<Rightarrow>
                             (let st3 = upd_bb new_bb (\<lambda>x. x\<lparr>rbi_next := rbi_next (blocks st2 cur_bb)\<rparr>) st2;
                                  st4 = upd_bb cur_bb (\<lambda>x. x\<lparr>rbi_next := Some new_bb\<rparr>) st3;
                                  st5 = upd_bb new_bb
                                          (\<lambda>x. x\<lparr>partition_bb := partition_bb (blocks st4 cur_bb)\<rparr>) st4;
                                  st6 = (case succ (blocks st5 new_bb) of
                                           [] \<Rightarrow> st5
                                         | e # es \<Rightarrow> upd_edge e (\<lambda>x. x\<lparr>crossing_edge := True\<rparr>) st5)
                              in (upd_bb new_bb (\<lambda>x. x\<lparr>rbi_footer := [BARRIER]\<rparr>) st6, Some new_bb))
                         | (st2, None) \<Rightarrow>
                             (upd_bb cur_bb (\<lambda>x. x\<lparr>rbi_footer := [BARRIER]\<rparr>) st2, None))
                   else (st1, None))
          else (st, None))"

text \<open>
  \<open>FOR_EACH_BB\<close> in \<open>fix_up_fall_thru_edges\<close>.  The second argument holds the blocks of the
  chain still to be visited.  A block that \<open>force_nonfallthru\<close> creates stands right
  behind the current one in the chain, so it is the next to be visited.  The list can
  grow, so the loop carries fuel.
\<close>

fun fix_up_fall_thru_edges_loop :: "nat \<Rightarrow> env \<Rightarrow> nat list \<Rightarrow> cfg \<Rightarrow> failure + cfg" where
  "fix_up_fall_thru_edges_loop fuel ev [] st = Inr st"
| "fix_up_fall_thru_edges_loop 0 ev (i # todo) st = Inl OUT_OF_FUEL"
| "fix_up_fall_thru_edges_loop (Suc fuel) ev (i # todo) st =
     (case fix_up_fall_thru_edge ev (BB i) st of
        (st', None) \<Rightarrow> fix_up_fall_thru_edges_loop fuel ev todo st'
      | (st', Some EXIT_BLOCK_PTR) \<Rightarrow> fix_up_fall_thru_edges_loop fuel ev todo st'
      | (st', Some ENTRY_BLOCK_PTR) \<Rightarrow> fix_up_fall_thru_edges_loop fuel ev todo st'
      | (st', Some (BB n)) \<Rightarrow> fix_up_fall_thru_edges_loop fuel ev (n # todo) st')"

definition fix_up_fall_thru_edges :: "nat \<Rightarrow> env \<Rightarrow> cfg \<Rightarrow> failure + cfg" where
  "fix_up_fall_thru_edges fuel ev st = fix_up_fall_thru_edges_loop fuel ev (bb_chain st) st"

subsection \<open>fix_edges_for_rarely_executed_code and the entry point\<close>

text \<open>
  The three later phases rewrite instruction patterns, which this model does not
  represent; they are taken from the environment.
\<close>

definition fix_edges_for_rarely_executed_code ::
  "nat \<Rightarrow> env \<Rightarrow> edge option list \<Rightarrow> cfg \<Rightarrow> failure + cfg" where
  "fix_edges_for_rarely_executed_code fuel ev crossing_edges st =
     (case add_labels_and_missing_jumps crossing_edges st of
        Inl f \<Rightarrow> Inl f
      | Inr st1 \<Rightarrow>
          (case fix_up_fall_thru_edges fuel ev st1 of
             Inl f \<Rightarrow> Inl f
           | Inr st2 \<Rightarrow>
               (let st3 = (if \<not> HAS_LONG_COND_BRANCH ev
                           then fix_crossing_conditional_branches ev st2 else st2);
                    st4 = (if \<not> HAS_LONG_UNCOND_BRANCH ev
                           then fix_crossing_unconditional_branches ev st3 else st3)
                in Inr (add_reg_crossing_jump_notes ev st4))))"

text \<open>The loop of \<open>partition_hot_cold_basic_blocks\<close> that lays the blocks out in chain order.\<close>

fun set_rbi_next :: "nat list \<Rightarrow> cfg \<Rightarrow> cfg" where
  "set_rbi_next [] st = st"
| "set_rbi_next (i # bbs) st =
     set_rbi_next bbs
       (case next_bb st (BB i) of
          Some n \<Rightarrow> (if index (BB i) \<ge> 0 \<and> index n \<ge> 0
                     then upd_bb (BB i) (\<lambda>x. x\<lparr>rbi_next := Some n\<rparr>) st else st)
        | None \<Rightarrow> st)"

definition partition_hot_cold_basic_blocks :: "nat \<Rightarrow> env \<Rightarrow> cfg \<Rightarrow> failure + cfg" where
  "partition_hot_cold_basic_blocks fuel ev st =
     (let max_edges = 2 * last_basic_block st
      in if n_basic_blocks st \<le> 1 then Inr st
         else (let st1 = cfg_layout_initialize ev 0 st;
                   st2 = set_rbi_next (bb_chain st1) st1;
                   (st3, buf) = find_rarely_executed_basic_blocks_and_crossing_edges ev max_edges st2;
                   n_crossing_edges = int (length (crossing_edges_buf buf))
               in if n_crossing_edges > 0
                  then (if reallocated buf then Inl DANGLING_BUFFER
                        else (case fix_edges_for_rarely_executed_code fuel ev
                                     (map Some (crossing_edges_buf buf)) st3 of
                                Inl f \<Rightarrow> Inl f
                              | Inr st4 \<Rightarrow> Inr (cfg_layout_finalize ev st4)))
                  else Inr (cfg_layout_finalize ev st3)))"

section \<open>The entry point of the reordering\<close>

text \<open>
  \<open>reorder_basic_blocks\<close>: the two early returns, then the pass proper (from
  \<open>timevar_push\<close> to \<open>timevar_pop\<close>), which is the argument \<open>pass\<close>.
\<close>

definition reorder_basic_blocks :: "env \<Rightarrow> (nat \<Rightarrow> cfg \<Rightarrow> cfg) \<Rightarrow> nat \<Rightarrow> cfg \<Rightarrow> cfg" where
  "reorder_basic_blocks ev pass layout_flags st =
     (if n_basic_blocks st \<le> 1 then st
      else if cannot_modify_jumps_p ev then st
      else pass layout_flags st)"

section \<open>Notions used in the statements\<close>

text \<open>The block starts with the label \<open>l\<close>.\<close>

definition labelled :: "cfg \<Rightarrow> basic_block \<Rightarrow> nat \<Rightarrow> bool" where
  "labelled st b l = (\<exists>r. insns (blocks st b) = CODE_LABEL l # r)"

text \<open>
  What \<open>add_labels_and_missing_jumps\<close> may change between two states: it adds labels at
  the heads of blocks, and it gives a block without a jump at its end and with one
  successor a jump and a footer, taking \<open>EDGE_FALLTHRU\<close> from the edge.  The shape of the
  graph, the partitions and the \<open>crossing_edge\<close> flags stay.
\<close>

definition jumps_added :: "cfg \<Rightarrow> cfg \<Rightarrow> bool" where
  "jumps_added st st' =
     (bb_chain st' = bb_chain st \<and> last_basic_block st' = last_basic_block st
      \<and> n_edges st' = n_edges st
      \<and> (\<forall>b. succ (blocks st' b) = succ (blocks st b)
             \<and> partition_bb (blocks st' b) = partition_bb (blocks st b)
             \<and> rbi_next (blocks st' b) = rbi_next (blocks st b))
      \<and> (\<forall>e. src (edges st' e) = src (edges st e) \<and> dest (edges st' e) = dest (edges st e)
             \<and> crossing_edge (edges st' e) = crossing_edge (edges st e)
             \<and> (flags (edges st' e) = flags (edges st e)
                 \<or> flags (edges st' e) = flags (edges st e) - {EDGE_FALLTHRU}))
      \<and> (\<forall>b. jump_at_end st b \<longrightarrow>
               jump_at_end st' b \<and> last (insns (blocks st' b)) = last (insns (blocks st b))
               \<and> rbi_footer (blocks st' b) = rbi_footer (blocks st b))
      \<and> (\<forall>b l. labelled st b l \<longrightarrow> labelled st' b l)
      \<and> (\<forall>b. \<not> jump_at_end st b \<and> length (succ (blocks st b)) \<noteq> 1 \<longrightarrow> \<not> jump_at_end st' b))"

text \<open>
  The result of the single-successor branch for the edge \<open>e\<close>: the edge is no
  fall-through any more, its source ends in an unconditional jump to the label at the
  head of its destination, and the footer of the source is the barrier.
\<close>

definition jump_emitted :: "cfg \<Rightarrow> edge \<Rightarrow> bool" where
  "jump_emitted st e =
     (EDGE_FALLTHRU \<notin> flags (edges st e)
      \<and> insns (blocks st (src (edges st e))) \<noteq> []
      \<and> (\<exists>l. last (insns (blocks st (src (edges st e)))) = JUMP_INSN False l
              \<and> labelled st (dest (edges st e)) l)
      \<and> rbi_footer (blocks st (src (edges st e))) = [BARRIER])"

text \<open>
  Between two states of \<open>connect_traces\<close> no block was copied: \<open>duplicate_block\<close> was
  not called, and the graph has the blocks it had.
\<close>

definition nothing_copied :: "connect_state \<Rightarrow> connect_state \<Rightarrow> bool" where
  "nothing_copied cs cs' =
     (duplicated cs' = duplicated cs
      \<and> bb_chain (graph cs') = bb_chain (graph cs)
      \<and> last_basic_block (graph cs') = last_basic_block (graph cs))"



text \<open>
  The states of \<open>fix_up_fall_thru_edges\<close>.  Two states show the same graph when chain,
  counters, edges, successor lists and partitions agree.  The \<open>crossing_edge\<close> flags are
  complete when every successor edge that crosses has its flag.  The crossing fall-through
  edges of a block are found when each one is the edge that \<open>find_fall_thru\<close> returns
  first.  A block has no crossing fall-through when none of its fall-through edges
  crosses.  The invariant of the loop: the blocks still to be visited have their crossing
  fall-through edges found, the other blocks have none left.
\<close>

definition same_graph :: "cfg \<Rightarrow> cfg \<Rightarrow> bool" where
  "same_graph st st' =
     (bb_chain st' = bb_chain st \<and> last_basic_block st' = last_basic_block st
      \<and> n_edges st' = n_edges st \<and> edges st' = edges st
      \<and> (\<forall>b. succ (blocks st' b) = succ (blocks st b)
             \<and> partition_bb (blocks st' b) = partition_bb (blocks st b)))"







section \<open>Concrete inputs\<close>

text \<open>
  The environment and the small graphs on which the theorems below are instantiated.
  \<open>example_env\<close> has partitioning switched on, takes a block of frequency 0 for probably
  never executed and computes the frequency of an edge as basic-block.h does.
\<close>

definition example_env :: env where
  "example_env = \<lparr>flag_reorder_blocks_and_partition = True, optimize_size = False,
     cannot_modify_jumps_p = False,
     HAS_LONG_COND_BRANCH = True, HAS_LONG_UNCOND_BRANCH = True,
     probably_never_executed_bb_p = (\<lambda>st b. frequency (blocks st b) = 0),
     maybe_hot_bb_p = (\<lambda>st b. True),
     can_duplicate_block_p = (\<lambda>st b. True),
     get_attr_length = (\<lambda>i. 4),
     uncond_jump_length = 4,
     invert_jump = (\<lambda>st b l. True),
     duplicate_block = (\<lambda>st b e. (st, b)),
     EDGE_FREQUENCY = (\<lambda>st e. (frequency (blocks st (src (edges st e))) * probability (edges st e)
                                  + 10000 sdiv 2) sdiv 10000),
     BB_FREQ_MAX = 10000, REG_BR_PROB_BASE = 10000,
     cfg_layout_initialize = (\<lambda>flags st. st),
     cfg_layout_finalize = (\<lambda>st. st),
     fix_crossing_conditional_branches = (\<lambda>st. st),
     fix_crossing_unconditional_branches = (\<lambda>st. st),
     add_reg_crossing_jump_notes = (\<lambda>st. st)\<rparr>"

definition null_bb :: basic_block_def where
  "null_bb = \<lparr>frequency = 0, count = 0, partition_bb = HOT_PARTITION, succ = [], pred = [],
     insns = [], rbi_next = None, rbi_visited = 0, rbi_footer = []\<rparr>"

definition null_edge :: edge_def where
  "null_edge = \<lparr>src = ENTRY_BLOCK_PTR, dest = EXIT_BLOCK_PTR, flags = {}, probability = 0,
     count_e = 0, crossing_edge = False\<rparr>"

text \<open>
  A cold block 0 with two successors: the hot block 1 over the crossing edge 0
  (probability 9000) and the cold block 2 over edge 1 (probability 1000).
\<close>

definition fork_cfg :: cfg where
  "fork_cfg = \<lparr>bb_chain = [0, 1, 2],
     blocks = (\<lambda>b. null_bb)
       (BB 0 := null_bb\<lparr>partition_bb := COLD_PARTITION, succ := [0, 1]\<rparr>,
        BB 1 := null_bb\<lparr>frequency := 100, pred := [0]\<rparr>,
        BB 2 := null_bb\<lparr>partition_bb := COLD_PARTITION, pred := [1]\<rparr>),
     edges = (\<lambda>e. null_edge)
       (0 := \<lparr>src = BB 0, dest = BB 1, flags = {EDGE_CAN_FALLTHRU}, probability = 9000,
              count_e = 0, crossing_edge = True\<rparr>,
        1 := \<lparr>src = BB 0, dest = BB 2, flags = {EDGE_CAN_FALLTHRU}, probability = 1000,
              count_e = 0, crossing_edge = False\<rparr>),
     last_basic_block = 3, n_edges = 2, label_num = 0, label_nuses = (\<lambda>l. 0)\<rparr>"

text \<open>
  A loop: entry, block 0, the loop of blocks 1 and 2 with the back edge 3 (probability
  8500, marked \<open>EDGE_DFS_BACK\<close>), the loop exit to block 3, exit.  Blocks 1 and 2 have
  frequency 100, so the back edge has frequency 85.
\<close>

definition loop_cfg :: cfg where
  "loop_cfg = \<lparr>bb_chain = [0, 1, 2, 3],
     blocks = (\<lambda>b. null_bb)
       (ENTRY_BLOCK_PTR := null_bb\<lparr>succ := [0]\<rparr>,
        BB 0 := null_bb\<lparr>frequency := 10, succ := [1], pred := [0]\<rparr>,
        BB 1 := null_bb\<lparr>frequency := 100, succ := [2], pred := [3, 1]\<rparr>,
        BB 2 := null_bb\<lparr>frequency := 100, succ := [3, 4], pred := [2]\<rparr>,
        BB 3 := null_bb\<lparr>frequency := 15, succ := [5], pred := [4]\<rparr>,
        EXIT_BLOCK_PTR := null_bb\<lparr>pred := [5]\<rparr>),
     edges = (\<lambda>e. null_edge)
       (0 := null_edge\<lparr>src := ENTRY_BLOCK_PTR, dest := BB 0,
              flags := {EDGE_FALLTHRU, EDGE_CAN_FALLTHRU}, probability := 10000\<rparr>,
        1 := null_edge\<lparr>src := BB 0, dest := BB 1,
              flags := {EDGE_FALLTHRU, EDGE_CAN_FALLTHRU}, probability := 10000\<rparr>,
        2 := null_edge\<lparr>src := BB 1, dest := BB 2,
              flags := {EDGE_FALLTHRU, EDGE_CAN_FALLTHRU}, probability := 10000\<rparr>,
        3 := null_edge\<lparr>src := BB 2, dest := BB 1,
              flags := {EDGE_CAN_FALLTHRU, EDGE_DFS_BACK}, probability := 8500\<rparr>,
        4 := null_edge\<lparr>src := BB 2, dest := BB 3,
              flags := {EDGE_FALLTHRU, EDGE_CAN_FALLTHRU}, probability := 1500\<rparr>,
        5 := null_edge\<lparr>src := BB 3, dest := EXIT_BLOCK_PTR,
              flags := {EDGE_FALLTHRU, EDGE_CAN_FALLTHRU}, probability := 10000\<rparr>),
     last_basic_block = 4, n_edges = 6, label_num = 0, label_nuses = (\<lambda>l. 0)\<rparr>"

text \<open>The side table as \<open>reorder_basic_blocks\<close> initialises it.\<close>

definition initial_bbd :: "int \<Rightarrow> bbro_basic_block_data" where
  "initial_bbd = (\<lambda>i. \<lparr>start_of_trace = -1, end_of_trace = -1, heap = None, node = None\<rparr>)"

text \<open>
  A round of \<open>find_traces\<close> on \<open>fork_cfg\<close> in which the heap holds the cold block 2, with
  its key \<open>BB_FREQ_MAX\<close>, and no trace has been made yet.
\<close>

definition cold_block_round :: round_state where
  "cold_block_round =
     \<lparr>cur_heap = \<lparr>heap_id = 0, next_handle = 1, nodes = [(0, 10000, BB 2)]\<rparr>,
      new_heap = \<lparr>heap_id = 1, next_handle = 0, nodes = []\<rparr>,
      round_bbd = initial_bbd(2 := \<lparr>start_of_trace = -1, end_of_trace = -1,
                                      heap = Some 0, node = Some 0\<rparr>),
      round_traces = (\<lambda>i. \<lparr>first = ENTRY_BLOCK_PTR, last_t = ENTRY_BLOCK_PTR,
                              round_t = 0, length_t = 0\<rparr>),
      round_n_traces = 0\<rparr>"

text \<open>
  A diamond in chain order 0, 1, 2, 3.  Block 0 ends in a conditional jump to block 2 and
  falls through into block 1; block 1 jumps to block 3; block 2, of frequency 0, falls
  through into block 3.  No partition has been assigned yet (every block is marked hot),
  and the \<open>crossing_edge\<close> flags are stale: set on edge 3, which joins two hot blocks.
\<close>

definition diamond_cfg :: cfg where
  "diamond_cfg = \<lparr>bb_chain = [0, 1, 2, 3],
     blocks = (\<lambda>b. null_bb)
       (ENTRY_BLOCK_PTR := null_bb\<lparr>succ := [0]\<rparr>,
        BB 0 := null_bb\<lparr>frequency := 100, succ := [1, 2], pred := [0],
                        insns := [NOTE, INSN, JUMP_INSN True 0]\<rparr>,
        BB 1 := null_bb\<lparr>frequency := 90, succ := [3], pred := [1],
                        insns := [NOTE, INSN, JUMP_INSN False 1]\<rparr>,
        BB 2 := null_bb\<lparr>frequency := 0, succ := [4], pred := [2],
                        insns := [CODE_LABEL 0, NOTE, INSN]\<rparr>,
        BB 3 := null_bb\<lparr>frequency := 100, succ := [5], pred := [3, 4],
                        insns := [CODE_LABEL 1, NOTE, INSN]\<rparr>,
        EXIT_BLOCK_PTR := null_bb\<lparr>pred := [5]\<rparr>),
     edges = (\<lambda>e. null_edge)
       (0 := null_edge\<lparr>src := ENTRY_BLOCK_PTR, dest := BB 0,
              flags := {EDGE_FALLTHRU}, probability := 10000\<rparr>,
        1 := null_edge\<lparr>src := BB 0, dest := BB 1,
              flags := {EDGE_FALLTHRU}, probability := 9000\<rparr>,
        2 := null_edge\<lparr>src := BB 0, dest := BB 2, flags := {}, probability := 1000\<rparr>,
        3 := null_edge\<lparr>src := BB 1, dest := BB 3, flags := {}, probability := 10000,
              crossing_edge := True\<rparr>,
        4 := null_edge\<lparr>src := BB 2, dest := BB 3,
              flags := {EDGE_FALLTHRU}, probability := 10000\<rparr>,
        5 := null_edge\<lparr>src := BB 3, dest := EXIT_BLOCK_PTR,
              flags := {EDGE_FALLTHRU}, probability := 10000\<rparr>),
     last_basic_block = 4, n_edges = 6, label_num = 2,
     label_nuses = (\<lambda>l. 0)(0 := 1, 1 := 1)\<rparr>"



text \<open>A function that consists of one block.\<close>

definition single_block_cfg :: cfg where
  "single_block_cfg = \<lparr>bb_chain = [0],
     blocks = (\<lambda>b. null_bb)
       (ENTRY_BLOCK_PTR := null_bb\<lparr>succ := [0]\<rparr>,
        BB 0 := null_bb\<lparr>succ := [1], pred := [0], insns := [NOTE, INSN]\<rparr>,
        EXIT_BLOCK_PTR := null_bb\<lparr>pred := [1]\<rparr>),
     edges = (\<lambda>e. null_edge)
       (0 := null_edge\<lparr>src := ENTRY_BLOCK_PTR, dest := BB 0, flags := {EDGE_FALLTHRU}\<rparr>,
        1 := null_edge\<lparr>src := BB 0, dest := EXIT_BLOCK_PTR, flags := {EDGE_FALLTHRU}\<rparr>),
     last_basic_block = 1, n_edges = 2, label_num = 0, label_nuses = (\<lambda>l. 0)\<rparr>"

text \<open>
  \<open>loop_cfg\<close> while trace 1 is being built: blocks 0, 1 and 2 are in the trace.
  In \<open>self_loop_cfg\<close> the back edge 3 leads from block 2 to block 2 itself, in
  \<open>entry_loop_cfg\<close> to block 0, the first block of the function.  On the target
  \<open>no_copy_env\<close> no block can be duplicated, so \<open>find_traces_1_round\<close> keeps a best
  edge that leads into a block with two predecessors.
\<close>

definition loop_cfg_in_trace :: cfg where
  "loop_cfg_in_trace =
     upd_bb (BB 0) (\<lambda>x. x\<lparr>rbi_visited := 1, rbi_next := Some (BB 1)\<rparr>)
       (upd_bb (BB 1) (\<lambda>x. x\<lparr>rbi_visited := 1, rbi_next := Some (BB 2)\<rparr>)
         (upd_bb (BB 2) (\<lambda>x. x\<lparr>rbi_visited := 1\<rparr>) loop_cfg))"

definition self_loop_cfg :: cfg where
  "self_loop_cfg =
     upd_bb (BB 1) (\<lambda>x. x\<lparr>pred := [1]\<rparr>)
       (upd_bb (BB 2) (\<lambda>x. x\<lparr>pred := [2, 3]\<rparr>)
         (upd_edge 3 (\<lambda>x. x\<lparr>dest := BB 2\<rparr>) loop_cfg_in_trace))"

definition entry_loop_cfg :: cfg where
  "entry_loop_cfg =
     upd_bb (BB 1) (\<lambda>x. x\<lparr>pred := [1]\<rparr>)
       (upd_bb (BB 0) (\<lambda>x. x\<lparr>pred := [0, 3]\<rparr>)
         (upd_edge 3 (\<lambda>x. x\<lparr>dest := BB 0\<rparr>) loop_cfg_in_trace))"

definition no_copy_env :: env where
  "no_copy_env = example_env\<lparr>can_duplicate_block_p := (\<lambda>st b. False)\<rparr>"

text \<open>
  Two traces to connect: trace 0 is block 0 followed by block 1, trace 1 is block 2 alone.
  Block 1 is a small join block (its predecessors are blocks 0 and 2) that leads to the
  exit, so trace 1 can only be continued by a copy of block 1.
\<close>

definition join_state :: connect_state where
  "join_state = \<lparr>graph = \<lparr>bb_chain = [0, 1, 2],
       blocks = (\<lambda>b. null_bb)
         (ENTRY_BLOCK_PTR := null_bb\<lparr>succ := [0]\<rparr>,
          BB 0 := null_bb\<lparr>frequency := 100, succ := [1, 4], pred := [0], insns := [NOTE, INSN],
                          rbi_next := Some (BB 1), rbi_visited := 1\<rparr>,
          BB 1 := null_bb\<lparr>frequency := 100, succ := [3], pred := [1, 2], insns := [NOTE, INSN]\<rparr>,
          BB 2 := null_bb\<lparr>frequency := 50, succ := [2], pred := [4], insns := [NOTE, INSN],
                          rbi_visited := 2\<rparr>,
          EXIT_BLOCK_PTR := null_bb\<lparr>pred := [3]\<rparr>),
       edges = (\<lambda>e. null_edge)
         (0 := null_edge\<lparr>src := ENTRY_BLOCK_PTR, dest := BB 0,
                flags := {EDGE_FALLTHRU, EDGE_CAN_FALLTHRU}, probability := 10000\<rparr>,
          1 := null_edge\<lparr>src := BB 0, dest := BB 1,
                flags := {EDGE_FALLTHRU, EDGE_CAN_FALLTHRU}, probability := 5000\<rparr>,
          2 := null_edge\<lparr>src := BB 2, dest := BB 1,
                flags := {EDGE_CAN_FALLTHRU}, probability := 10000\<rparr>,
          3 := null_edge\<lparr>src := BB 1, dest := EXIT_BLOCK_PTR,
                flags := {EDGE_FALLTHRU, EDGE_CAN_FALLTHRU}, probability := 10000\<rparr>,
          4 := null_edge\<lparr>src := BB 0, dest := BB 2, flags := {}, probability := 5000\<rparr>),
       last_basic_block = 3, n_edges = 5, label_num = 0, label_nuses = (\<lambda>l. 0)\<rparr>,
     bbd = initial_bbd
         (0 := \<lparr>start_of_trace = 0, end_of_trace = -1, heap = None, node = None\<rparr>,
          1 := \<lparr>start_of_trace = -1, end_of_trace = 0, heap = None, node = None\<rparr>,
          2 := \<lparr>start_of_trace = 1, end_of_trace = 1, heap = None, node = None\<rparr>),
     array_size = 5,
     traces = (\<lambda>i. \<lparr>first = BB 0, last_t = BB 1, round_t = 0, length_t = 2\<rparr>)
         (1 := \<lparr>first = BB 2, last_t = BB 2, round_t = 0, length_t = 1\<rparr>),
     connected = (\<lambda>i. False), cold_traces = (\<lambda>i. False),
     unconnected_hot_trace_count = 0, cold_connected = True, last_trace = -1,
     duplicated = []\<rparr>"

section \<open>Properties\<close>

subsection \<open>push_to_next_round_p and the start of a trace\<close>

text \<open>
  Claim C3.  \<open>push_to_next_round_p\<close> answers true exactly when \<open>round < number_of_rounds - 1\<close>
  and the block is cold while partitioning, or its frequency is below \<open>exec_th\<close>, or its
  count is below \<open>count_th\<close>, or it is probably never executed; in the final round
  (\<open>round = number_of_rounds - 1\<close>) the answer is false for every block.  In
  \<open>find_traces_1_round\<close> the answer decides what happens to the block \<open>b\<close> taken out of
  the heap: it goes to the heap of the next round, or it starts a trace.  In the final
  round every block taken out of the heap starts a trace: the entry \<open>*n_traces\<close> of
  \<open>traces\<close> gets \<open>b\<close> as its first block, the round and the length 0, \<open>*n_traces\<close> grows
  by one (it is a non-negative \<open>int\<close> below \<open>INT_MAX\<close>), and nothing is put into the heap
  of the next round.
\<close>

theorem push_to_next_round_p_seeds_trace:
  "(push_to_next_round_p ev st bb round number_of_rounds exec_th count_th
      = (round < number_of_rounds - 1
         \<and> ((flag_reorder_blocks_and_partition ev
              \<and> partition_bb (blocks st bb) = COLD_PARTITION)
            \<or> frequency (blocks st bb) < exec_th
            \<or> count (blocks st bb) < count_th
            \<or> probably_never_executed_bb_p ev st bb)))
   \<and> \<not> push_to_next_round_p ev st bb (number_of_rounds - 1) number_of_rounds exec_th count_th
   \<and> (\<forall>b h. fibheap_extract_min (cur_heap rs) = Some (b, h) \<longrightarrow>
         (\<exists>rs'. extract_block ev st round number_of_rounds exec_th count_th rs
                  = Some (rs', if push_to_next_round_p ev st b round number_of_rounds
                                    exec_th count_th
                               then None else Some b)))
   \<and> (\<forall>b h. fibheap_extract_min (cur_heap rs) = Some (b, h)
            \<and> 0 \<le> round_n_traces rs \<and> round_n_traces rs < INT_MAX \<longrightarrow>
         (\<exists>rs'. extract_block ev st (number_of_rounds - 1) number_of_rounds exec_th count_th rs
                  = Some (rs', Some b)
                \<and> cur_heap rs' = h \<and> new_heap rs' = new_heap rs
                \<and> first (round_traces rs' (round_n_traces rs)) = b
                \<and> round_t (round_traces rs' (round_n_traces rs)) = number_of_rounds - 1
                \<and> length_t (round_traces rs' (round_n_traces rs)) = 0
                \<and> round_n_traces rs' = round_n_traces rs + 1))"
proof (intro conjI allI impI)
  show "push_to_next_round_p ev st bb round number_of_rounds exec_th count_th
      = (round < number_of_rounds - 1
         \<and> ((flag_reorder_blocks_and_partition ev
              \<and> partition_bb (blocks st bb) = COLD_PARTITION)
            \<or> frequency (blocks st bb) < exec_th
            \<or> count (blocks st bb) < count_th
            \<or> probably_never_executed_bb_p ev st bb))"
    by (simp add: push_to_next_round_p_def Let_def)
  show "\<not> push_to_next_round_p ev st bb (number_of_rounds - 1) number_of_rounds exec_th count_th"
    by (simp add: push_to_next_round_p_def)
next
  fix b h assume x: "fibheap_extract_min (cur_heap rs) = Some (b, h)"
  show "\<exists>rs'. extract_block ev st round number_of_rounds exec_th count_th rs
                  = Some (rs', if push_to_next_round_p ev st b round number_of_rounds
                                    exec_th count_th
                               then None else Some b)"
    by (simp add: extract_block_def x Let_def split: prod.splits)
next
  fix b h assume "fibheap_extract_min (cur_heap rs) = Some (b, h)
            \<and> 0 \<le> round_n_traces rs \<and> round_n_traces rs < INT_MAX"
  then have x: "fibheap_extract_min (cur_heap rs) = Some (b, h)"
    and w: "int_wrap (round_n_traces rs + 1) = round_n_traces rs + 1"
    by (simp_all add: int_wrap_def INT_MAX_def)
  have n: "\<not> push_to_next_round_p ev st b (number_of_rounds - 1) number_of_rounds
               exec_th count_th"
    by (simp add: push_to_next_round_p_def)
  show "\<exists>rs'. extract_block ev st (number_of_rounds - 1) number_of_rounds exec_th count_th rs
                  = Some (rs', Some b)
                \<and> cur_heap rs' = h \<and> new_heap rs' = new_heap rs
                \<and> first (round_traces rs' (round_n_traces rs)) = b
                \<and> round_t (round_traces rs' (round_n_traces rs)) = number_of_rounds - 1
                \<and> length_t (round_traces rs' (round_n_traces rs)) = 0
                \<and> round_n_traces rs' = round_n_traces rs + 1"
    by (simp add: extract_block_def x n w Let_def)
qed

text \<open>
  In \<open>cold_block_round\<close> the heap holds the cold block 2 of \<open>fork_cfg\<close>.  In round 0 of 5
  it is sent to the next round; in round 4, the final one, it starts trace 0.
\<close>

theorem push_to_next_round_p_seeds_trace_witness:
  "fibheap_extract_min (cur_heap cold_block_round)
     = Some (BB 2, \<lparr>heap_id = 0, next_handle = 1, nodes = []\<rparr>)
   \<and> push_to_next_round_p example_env fork_cfg (BB 2) 0 5 50 0
   \<and> (\<exists>rs'. extract_block example_env fork_cfg 0 5 50 0 cold_block_round = Some (rs', None))
   \<and> (\<exists>rs'. extract_block example_env fork_cfg 4 5 0 0 cold_block_round = Some (rs', Some (BB 2))
             \<and> first (round_traces rs' 0) = BB 2 \<and> round_t (round_traces rs' 0) = 4
             \<and> round_n_traces rs' = 1)"
proof -
  have x: "fibheap_extract_min (cur_heap cold_block_round)
     = Some (BB 2, \<lparr>heap_id = 0, next_handle = 1, nodes = []\<rparr>)"
    by (simp add: cold_block_round_def fibheap_extract_min_def)
  have p: "push_to_next_round_p example_env fork_cfg (BB 2) 0 5 50 0"
    by (simp add: push_to_next_round_p_def example_env_def fork_cfg_def null_bb_def)
  note t = push_to_next_round_p_seeds_trace [of example_env fork_cfg "BB 2" 0 5 50 0
      cold_block_round]
  from t x p have a: "\<exists>rs'. extract_block example_env fork_cfg 0 5 50 0 cold_block_round
                        = Some (rs', None)"
    by auto
  note u = push_to_next_round_p_seeds_trace [of example_env fork_cfg "BB 2" 4 5 0 0
      cold_block_round]
  have n0: "round_n_traces cold_block_round = 0" by (simp add: cold_block_round_def)
  have n1: "0 \<le> round_n_traces cold_block_round"
    "round_n_traces cold_block_round < INT_MAX"
    by (simp_all add: cold_block_round_def INT_MAX_def)
  from u x n1 have "\<exists>rs'. extract_block example_env fork_cfg (5 - 1) 5 0 0 cold_block_round
                  = Some (rs', Some (BB 2))
                \<and> first (round_traces rs' (round_n_traces cold_block_round)) = BB 2
                \<and> round_t (round_traces rs' (round_n_traces cold_block_round)) = 5 - 1
                \<and> round_n_traces rs' = round_n_traces cold_block_round + 1"
    by blast
  then have b: "\<exists>rs'. extract_block example_env fork_cfg 4 5 0 0 cold_block_round
                  = Some (rs', Some (BB 2))
             \<and> first (round_traces rs' 0) = BB 2 \<and> round_t (round_traces rs' 0) = 4
             \<and> round_n_traces rs' = 1"
    by (simp add: n0)
  from x p a b show ?thesis by blast
qed

subsection \<open>better_edge_p\<close>

text \<open>
  Claim C5, as the code has it.  An edge wins when its probability exceeds \<open>best_prob\<close> by
  more than \<open>best_prob / 10\<close>.  When it is below \<open>best_prob\<close> by more than that, it loses
  unless partitioning is on and the current best edge crosses the partitions while the
  candidate does not: then it wins all the same.  Inside the band the frequency band and
  then the adjacency in the block chain decide, under the same override.
\<close>

theorem better_edge_p_bands:
  "(prob > best_prob + best_prob sdiv 10
      \<longrightarrow> better_edge_p ev st bb e prob freq best_prob best_freq cur_best_edge)
   \<and> (\<not> prob > best_prob + best_prob sdiv 10 \<and> prob < best_prob - best_prob sdiv 10
      \<longrightarrow> better_edge_p ev st bb e prob freq best_prob best_freq cur_best_edge
           = (flag_reorder_blocks_and_partition ev
              \<and> (case cur_best_edge of None \<Rightarrow> False
                  | Some c \<Rightarrow> crossing_edge (edges st c) \<and> \<not> crossing_edge (edges st e))))
   \<and> (\<not> prob > best_prob + best_prob sdiv 10 \<and> \<not> prob < best_prob - best_prob sdiv 10
      \<longrightarrow> better_edge_p ev st bb e prob freq best_prob best_freq cur_best_edge
           = ((flag_reorder_blocks_and_partition ev
               \<and> (case cur_best_edge of None \<Rightarrow> False
                   | Some c \<Rightarrow> crossing_edge (edges st c) \<and> \<not> crossing_edge (edges st e)))
              \<or> freq < best_freq - best_freq sdiv 10
              \<or> (\<not> freq > best_freq + best_freq sdiv 10
                  \<and> prev_bb st (dest (edges st e)) = Some bb)))"
  by (auto simp: better_edge_p_def Let_def)

text \<open>
  The three cases of the theorem at edge 1 of \<open>fork_cfg\<close>: against a best probability of
  500 it wins outright; against the crossing edge 0 with 9000 it is far below the band and
  wins by the override; against a non-crossing best edge (itself) it loses there.
\<close>

theorem better_edge_p_bands_witness:
  "better_edge_p example_env fork_cfg (BB 0) 1 1000 0 500 0 None
   \<and> better_edge_p example_env fork_cfg (BB 0) 1 1000 0 9000 0 (Some 0)
   \<and> \<not> better_edge_p example_env fork_cfg (BB 0) 1 1000 0 9000 0 (Some 1)
   \<and> \<not> better_edge_p example_env fork_cfg (BB 0) 1 1000 0 1000 0 (Some 1)"
  using better_edge_p_bands [of 500 1000 example_env fork_cfg "BB 0" 1 0 0 None]
        better_edge_p_bands [of 9000 1000 example_env fork_cfg "BB 0" 1 0 0 "Some 0"]
        better_edge_p_bands [of 9000 1000 example_env fork_cfg "BB 0" 1 0 0 "Some 1"]
        better_edge_p_bands [of 1000 1000 example_env fork_cfg "BB 0" 1 0 0 "Some 1"]
  by (simp add: example_env_def fork_cfg_def signed_divide_int_def)

text \<open>
  The claim as written fails: with partitioning on, the candidate edge 1 of \<open>fork_cfg\<close>
  has probability 1000, more than \<open>9000 / 10\<close> below the 9000 of the current best edge 0,
  and still \<open>better_edge_p\<close> answers true, because edge 0 crosses and edge 1 does not.
\<close>

theorem better_edge_p_loses_counterexample:
  "(1000::int) < 9000 - 9000 sdiv 10
   \<and> better_edge_p example_env fork_cfg (BB 0) 1 1000 0 9000 0 (Some 0)"
  by (simp add: better_edge_p_def example_env_def fork_cfg_def signed_divide_int_def)

subsection \<open>The count threshold of a round\<close>

lemma sdiv_nonneg: "0 \<le> a \<Longrightarrow> 0 < b \<Longrightarrow> (a::int) sdiv b = a div b"
  by (cases "a = 0") (simp_all add: signed_divide_int_def)

lemma exec_threshold_cases: "i < 5 \<Longrightarrow> exec_threshold ! i \<in> {500, 200, 50, 0}"
proof -
  assume "i < 5"
  then have "i = 0 \<or> i = 1 \<or> i = 2 \<or> i = 3 \<or> i = 4" by arith
  then show ?thesis by (auto simp: exec_threshold_def)
qed

lemma max_entry_count_loop_ge: "m \<le> max_entry_count_loop st es m"
proof (induction es arbitrary: m)
  case Nil
  show ?case by simp
next
  case (Cons e es)
  let ?c = "count (blocks st (dest (edges st e)))"
  show ?case
  proof (cases "?c > m")
    case True
    have "?c \<le> max_entry_count_loop st es ?c" by (rule Cons.IH)
    with True show ?thesis by simp
  next
    case False
    with Cons.IH [of m] show ?thesis by simp
  qed
qed

text \<open>The maximum that \<open>find_traces\<close> hands to the threshold computation is never negative.\<close>

lemma max_entry_count_nonneg: "0 \<le> max_entry_count st"
  unfolding max_entry_count_def by (rule max_entry_count_loop_ge)

lemma count_threshold_value:
  assumes m0: "0 \<le> m" and m63: "m < 2 ^ 63" and i5: "i < 5"
  shows "count_threshold m i =
           Some (if m < 2147483 then (m * exec_threshold ! i) div 1000
                 else (m div 1000) * exec_threshold ! i)"
proof -
  from i5 have t: "exec_threshold ! i \<in> {500, 200, 50, 0}" by (rule exec_threshold_cases)
  then have t0: "0 \<le> exec_threshold ! i" and t500: "exec_threshold ! i \<le> 500" by auto
  have lim: "INT_MAX sdiv 1000 = 2147483" by (simp add: INT_MAX_def signed_divide_int_def)
  show ?thesis
  proof (cases "m < 2147483")
    case True
    have p0: "0 \<le> m * exec_threshold ! i" using m0 t0 by simp
    have "m * exec_threshold ! i \<le> 2147483 * 500"
      using True m0 t0 t500 by (intro mult_mono) auto
    then have ok: "gcov_type_ok (m * exec_threshold ! i)"
      using p0 by (simp add: gcov_type_ok_def)
    show ?thesis using True ok p0
      by (simp add: count_threshold_def lim gcov_checked_def sdiv_nonneg)
  next
    case False
    have q: "m sdiv 1000 = m div 1000" using m0 by (simp add: sdiv_nonneg)
    have q0: "0 \<le> m div 1000" using m0 by simp
    have "m div 1000 * exec_threshold ! i \<le> m div 1000 * 500"
      using q0 t500 by (intro mult_left_mono) auto
    also have "\<dots> \<le> m" using m0 by simp
    finally have "m div 1000 * exec_threshold ! i < 2 ^ 63" using m63 by simp
    moreover have "0 \<le> m div 1000 * exec_threshold ! i" using q0 t0 by simp
    ultimately have ok: "gcov_type_ok (m div 1000 * exec_threshold ! i)"
      by (simp add: gcov_type_ok_def)
    show ?thesis using False ok
      by (simp add: count_threshold_def lim gcov_checked_def q)
  qed
qed

lemma lost_precision:
  assumes "0 \<le> (m::int)" and "0 \<le> (t::int)"
  shows "m div 1000 * t \<le> (m * t) div 1000 \<and> (m * t) div 1000 - m div 1000 * t \<le> t"
proof -
  define q where "q = m div 1000"
  define r where "r = m mod 1000"
  have m: "m = 1000 * q + r" by (simp add: q_def r_def)
  have r: "0 \<le> r" "r < 1000" by (simp_all add: r_def)
  have "m * t = q * t * 1000 + r * t" by (simp add: m algebra_simps)
  then have e: "(m * t) div 1000 = q * t + (r * t) div 1000" by simp
  have "0 \<le> r * t" using r assms by simp
  then have lo: "0 \<le> (r * t) div 1000" by simp
  have "r * t \<le> 1000 * t" using r assms by (intro mult_right_mono) auto
  then have "(r * t) div 1000 \<le> (1000 * t) div 1000" by (rule zdiv_mono1) simp
  then have hi: "(r * t) div 1000 \<le> t" by simp
  show ?thesis using e lo hi by (simp add: q_def)
qed

text \<open>
  Claim C9, as the code has it.  For a maximal entry count \<open>m\<close> in the non-negative range
  of \<open>gcov_type\<close> (\<open>max_entry_count_nonneg\<close>: the maximum is never negative) and a round
  \<open>i < 5\<close>, no step of the computation overflows, so a value is produced.  Below
  \<open>INT_MAX / 1000 = 2147483\<close> it is the exact quotient \<open>m * exec_threshold[i] / 1000\<close>.
  From there on the division comes first: the value is \<open>m / 1000 * exec_threshold[i]\<close>,
  never above the exact quotient and at most \<open>exec_threshold[i]\<close> below it.
\<close>

theorem count_threshold_no_overflow:
  assumes "0 \<le> m" and "m < 2 ^ 63" and "i < 5"
  shows "count_threshold m i =
           Some (if m < 2147483 then (m * exec_threshold ! i) div 1000
                 else (m div 1000) * exec_threshold ! i)
         \<and> m div 1000 * exec_threshold ! i \<le> (m * exec_threshold ! i) div 1000
         \<and> (m * exec_threshold ! i) div 1000 - m div 1000 * exec_threshold ! i
             \<le> exec_threshold ! i"
proof -
  from assms(3) have "exec_threshold ! i \<in> {500, 200, 50, 0}" by (rule exec_threshold_cases)
  then have "0 \<le> exec_threshold ! i" by auto
  with assms(1) lost_precision [of m "exec_threshold ! i"] count_threshold_value [OF assms]
  show ?thesis by simp
qed

theorem count_threshold_no_overflow_witness:
  "count_threshold 2147999 0 = Some 1073500
   \<and> count_threshold 2000000 1 = Some 400000
   \<and> count_threshold (2 ^ 63 - 1) 0 = Some 4611686018427387500"
  using count_threshold_no_overflow [of 2147999 0]
        count_threshold_no_overflow [of 2000000 1]
        count_threshold_no_overflow [of "2 ^ 63 - 1" 0]
  by (simp add: exec_threshold_def)

text \<open>
  The exact quotient is not what the code computes for large counts: in round 0 with
  \<open>max_entry_count = 2147483\<close> the exact value is 1073741, the code gives 1073500.
\<close>

theorem count_threshold_exact_counterexample:
  "count_threshold 2147483 0 = Some 1073500
   \<and> (2147483 * exec_threshold ! 0) sdiv 1000 = 1073741"
  by (simp add: count_threshold_def INT_MAX_def exec_threshold_def gcov_checked_def
      gcov_type_ok_def signed_divide_int_def)

subsection \<open>bb_to_key\<close>

lemma Max_insert_max:
  fixes a b :: int
  assumes "finite S"
  shows "Max (insert (max a b) S) = Max (insert a (insert b S))"
proof (cases "S = {}")
  case True
  then show ?thesis by simp
next
  case False
  with assms show ?thesis by (simp add: max.assoc)
qed

text \<open>
  The loop keeps the largest frequency seen so far among the start value and the
  predecessor edges that come from the end of a trace or are back edges.
\<close>

lemma bb_to_key_priority_Max:
  "bb_to_key_priority ev st aux es p =
     Max (insert p (set (map (EDGE_FREQUENCY ev st)
       (filter (\<lambda>e. (src (edges st e) \<noteq> ENTRY_BLOCK_PTR
                      \<and> 0 \<le> end_of_trace (aux (index (src (edges st e)))))
                     \<or> EDGE_DFS_BACK \<in> flags (edges st e)) es))))"
  (is "_ = Max (insert p (?F es))")
proof (induction es arbitrary: p)
  case Nil
  show ?case by simp
next
  case (Cons e es)
  let ?q = "(src (edges st e) \<noteq> ENTRY_BLOCK_PTR
              \<and> 0 \<le> end_of_trace (aux (index (src (edges st e)))))
            \<or> EDGE_DFS_BACK \<in> flags (edges st e)"
  let ?fe = "EDGE_FREQUENCY ev st e"
  have fin: "finite (?F es)" by simp
  show ?case
  proof (cases ?q)
    case True
    have step: "bb_to_key_priority ev st aux (e # es) p
                  = bb_to_key_priority ev st aux es (max ?fe p)"
      using True by (simp add: Let_def max_def)
    have F: "?F (e # es) = insert ?fe (?F es)" using True by simp
    have "Max (insert (max ?fe p) (?F es)) = Max (insert ?fe (insert p (?F es)))"
      by (rule Max_insert_max [OF fin])
    also have "\<dots> = Max (insert p (?F (e # es)))" by (simp only: F insert_commute)
    finally show ?thesis by (simp only: step Cons.IH)
  next
    case False
    then have "bb_to_key_priority ev st aux (e # es) p = bb_to_key_priority ev st aux es p"
      and "?F (e # es) = ?F es" by auto
    then show ?thesis by (simp only: Cons.IH)
  qed
qed

text \<open>A value in the range of \<open>int\<close> is not changed.\<close>

lemma int_wrap_id: "- INT_MAX - 1 \<le> x \<Longrightarrow> x \<le> INT_MAX \<Longrightarrow> int_wrap x = x"
  by (simp add: int_wrap_def INT_MAX_def)

lemma bb_to_key_in_range:
  assumes b: "0 \<le> BB_FREQ_MAX ev" and f: "0 \<le> frequency (blocks st bb)"
    and p: "0 \<le> p"
    and r: "100 * BB_FREQ_MAX ev + 100 * p + frequency (blocks st bb) \<le> INT_MAX"
  shows "int_wrap (- int_wrap (int_wrap (int_wrap (100 * BB_FREQ_MAX ev) + int_wrap (100 * p))
                               + frequency (blocks st bb)))
           = - (100 * BB_FREQ_MAX ev + 100 * p + frequency (blocks st bb))"
    and "int_wrap (- frequency (blocks st bb)) = - frequency (blocks st bb)"
proof -
  have m: "0 \<le> INT_MAX" by (simp add: INT_MAX_def)
  have 1: "int_wrap (100 * BB_FREQ_MAX ev) = 100 * BB_FREQ_MAX ev"
    using b f p r m by (intro int_wrap_id) linarith+
  have 2: "int_wrap (100 * p) = 100 * p"
    using b f p r m by (intro int_wrap_id) linarith+
  have 3: "int_wrap (100 * BB_FREQ_MAX ev + 100 * p) = 100 * BB_FREQ_MAX ev + 100 * p"
    using b f p r m by (intro int_wrap_id) linarith+
  have 4: "int_wrap (100 * BB_FREQ_MAX ev + 100 * p + frequency (blocks st bb))
             = 100 * BB_FREQ_MAX ev + 100 * p + frequency (blocks st bb)"
    using b f p r m by (intro int_wrap_id) linarith+
  have 5: "int_wrap (- (100 * BB_FREQ_MAX ev + 100 * p + frequency (blocks st bb)))
             = - (100 * BB_FREQ_MAX ev + 100 * p + frequency (blocks st bb))"
    using b f p r m by (intro int_wrap_id) linarith+
  show "int_wrap (- int_wrap (int_wrap (int_wrap (100 * BB_FREQ_MAX ev) + int_wrap (100 * p))
                               + frequency (blocks st bb)))
           = - (100 * BB_FREQ_MAX ev + 100 * p + frequency (blocks st bb))"
    by (simp only: 1 2 3 4 5)
  show "int_wrap (- frequency (blocks st bb)) = - frequency (blocks st bb)"
    using b f p r m by (intro int_wrap_id) linarith+
qed

text \<open>
  Claim C4.  Let \<open>fs\<close> be the frequencies of the predecessor edges whose source is the
  end of a trace (and not the entry block) or that are marked \<open>EDGE_DFS_BACK\<close>, and let
  the block frequency and \<open>BB_FREQ_MAX\<close> be non-negative and such that
  \<open>100 * BB_FREQ_MAX + 100 * priority + frequency\<close> fits into \<open>int\<close>, the priority being
  the largest of 0 and \<open>fs\<close>.  For a block that is cold or probably never executed the
  key is \<open>BB_FREQ_MAX\<close>.  Otherwise, when there is such an edge and the largest of these
  frequencies is positive, the key is
  \<open>- (100 * BB_FREQ_MAX + 100 * priority + frequency)\<close>, and \<open>- frequency\<close> in every other
  case.  With a positive \<open>BB_FREQ_MAX\<close> the key of such a block is at most 0 and so below
  the key \<open>BB_FREQ_MAX\<close> of the cold blocks.
\<close>

theorem bb_to_key_value:
  assumes fs: "fs = map (EDGE_FREQUENCY ev st)
                      (filter (\<lambda>e. (src (edges st e) \<noteq> ENTRY_BLOCK_PTR
                                     \<and> 0 \<le> end_of_trace (aux (index (src (edges st e)))))
                                    \<or> EDGE_DFS_BACK \<in> flags (edges st e))
                         (pred (blocks st bb)))"
    and b: "0 \<le> BB_FREQ_MAX ev" and f: "0 \<le> frequency (blocks st bb)"
    and r: "100 * BB_FREQ_MAX ev + 100 * Max (insert 0 (set fs)) + frequency (blocks st bb)
              \<le> INT_MAX"
  shows "bb_to_key ev st aux bb =
          (if partition_bb (blocks st bb) = COLD_PARTITION \<or> probably_never_executed_bb_p ev st bb
           then BB_FREQ_MAX ev
           else if fs \<noteq> [] \<and> 0 < Max (set fs)
                then - (100 * BB_FREQ_MAX ev + 100 * Max (set fs) + frequency (blocks st bb))
                else - frequency (blocks st bb))
   \<and> (0 < BB_FREQ_MAX ev
        \<and> partition_bb (blocks st bb) \<noteq> COLD_PARTITION
        \<and> \<not> probably_never_executed_bb_p ev st bb
      \<longrightarrow> bb_to_key ev st aux bb \<le> 0 \<and> bb_to_key ev st aux bb < BB_FREQ_MAX ev)"
proof -
  define p where "p = bb_to_key_priority ev st aux (pred (blocks st bb)) 0"
  have pm: "p = Max (insert 0 (set fs))"
    unfolding p_def fs by (rule bb_to_key_priority_Max)
  have p0: "0 \<le> p" unfolding pm by simp
  have pv: "p = (if fs \<noteq> [] \<and> 0 < Max (set fs) then Max (set fs) else 0)"
  proof (cases "fs = []")
    case True
    then show ?thesis by (simp add: pm)
  next
    case False
    then have "Max (insert 0 (set fs)) = max 0 (Max (set fs))" by simp
    then show ?thesis using False by (simp add: pm max_def)
  qed
  from r have r': "100 * BB_FREQ_MAX ev + 100 * p + frequency (blocks st bb) \<le> INT_MAX"
    by (simp add: pm)
  note w = bb_to_key_in_range [OF b f p0 r']
  have v: "bb_to_key ev st aux bb =
          (if partition_bb (blocks st bb) = COLD_PARTITION \<or> probably_never_executed_bb_p ev st bb
           then BB_FREQ_MAX ev
           else if p \<noteq> 0
                then - (100 * BB_FREQ_MAX ev + 100 * p + frequency (blocks st bb))
                else - frequency (blocks st bb))"
    unfolding bb_to_key_def Let_def p_def [symmetric] by (simp only: w)
  have eq: "bb_to_key ev st aux bb =
          (if partition_bb (blocks st bb) = COLD_PARTITION \<or> probably_never_executed_bb_p ev st bb
           then BB_FREQ_MAX ev
           else if fs \<noteq> [] \<and> 0 < Max (set fs)
                then - (100 * BB_FREQ_MAX ev + 100 * Max (set fs) + frequency (blocks st bb))
                else - frequency (blocks st bb))"
    unfolding v using pv by auto
  have le: "partition_bb (blocks st bb) \<noteq> COLD_PARTITION
        \<and> \<not> probably_never_executed_bb_p ev st bb \<Longrightarrow> bb_to_key ev st aux bb \<le> 0"
    unfolding v using b f p0 by auto
  from eq le show ?thesis by auto
qed

text \<open>
  In \<open>loop_cfg\<close> block 1 is the target of the back edge of frequency 85: its key is
  \<open>- (1000000 + 8500 + 100)\<close>.  Block 0 has no such predecessor and gets \<open>- 10\<close>; the
  cold block 2 of \<open>fork_cfg\<close> gets 10000.
\<close>

theorem bb_to_key_value_witness:
  "bb_to_key example_env loop_cfg initial_bbd (BB 1) = - 1008600
   \<and> bb_to_key example_env loop_cfg initial_bbd (BB 1) < BB_FREQ_MAX example_env
   \<and> bb_to_key example_env loop_cfg initial_bbd (BB 0) = - 10
   \<and> bb_to_key example_env fork_cfg initial_bbd (BB 2) = 10000"
  using bb_to_key_value [OF refl, of example_env loop_cfg "BB 1" initial_bbd]
        bb_to_key_value [OF refl, of example_env loop_cfg "BB 0" initial_bbd]
        bb_to_key_value [OF refl, of example_env fork_cfg "BB 2" initial_bbd]
  by (simp add: example_env_def loop_cfg_def fork_cfg_def initial_bbd_def null_bb_def
      null_edge_def signed_divide_int_def INT_MAX_def)

section \<open>Properties of the partitioning\<close>

lemma upd_edge_simps [simp]:
  "blocks (upd_edge e f st) = blocks st"
  "bb_chain (upd_edge e f st) = bb_chain st"
  "last_basic_block (upd_edge e f st) = last_basic_block st"
  "n_edges (upd_edge e f st) = n_edges st"
  "label_num (upd_edge e f st) = label_num st"
  "label_nuses (upd_edge e f st) = label_nuses st"
  "edges (upd_edge e f st) e' = (if e' = e then f (edges st e) else edges st e')"
  by (simp_all add: upd_edge_def)

lemma upd_bb_simps [simp]:
  "edges (upd_bb b f st) = edges st"
  "bb_chain (upd_bb b f st) = bb_chain st"
  "last_basic_block (upd_bb b f st) = last_basic_block st"
  "n_edges (upd_bb b f st) = n_edges st"
  "label_num (upd_bb b f st) = label_num st"
  "label_nuses (upd_bb b f st) = label_nuses st"
  "blocks (upd_bb b f st) b' = (if b' = b then f (blocks st b) else blocks st b')"
  by (simp_all add: upd_bb_def)

subsection \<open>The crossing-edge flags\<close>

lemma crosses_cong:
  "blocks st' = blocks st \<Longrightarrow>
   (\<forall>e. src (edges st' e) = src (edges st e) \<and> dest (edges st' e) = dest (edges st e)
            \<and> flags (edges st' e) = flags (edges st e)) \<Longrightarrow> crosses st' = crosses st"
  by (auto simp: crosses_def fun_eq_iff)

text \<open>
  The loop over the successor edges of one block changes nothing but \<open>crossing_edge\<close>
  fields, writes the field of every edge it visits, and collects the crossing ones.
\<close>

lemma mark_crossing_succ_frame:
  "mark_crossing_succ es (st, buf) = (st', buf') \<Longrightarrow>
     blocks st' = blocks st \<and> bb_chain st' = bb_chain st
     \<and> (\<forall>e. src (edges st' e) = src (edges st e) \<and> dest (edges st' e) = dest (edges st e)
            \<and> flags (edges st' e) = flags (edges st e))
     \<and> (\<forall>e. e \<notin> set es \<longrightarrow> edges st' e = edges st e)
     \<and> (\<forall>e \<in> set es. crossing_edge (edges st' e) = crosses st e)
     \<and> set (crossing_edges_buf buf')
         = set (crossing_edges_buf buf) \<union> {e \<in> set es. crosses st e}"
proof (induction es arbitrary: st buf)
  case Nil
  then show ?case by simp
next
  case (Cons a es)
  let ?st1 = "upd_edge a (\<lambda>x. x\<lparr>crossing_edge := crosses st a\<rparr>) st"
  obtain buf1 where step: "mark_crossing_succ es (?st1, buf1) = (st', buf')"
    and ces1: "set (crossing_edges_buf buf1)
                 = set (crossing_edges_buf buf) \<union> {e. e = a \<and> crosses st a}"
    using Cons.prems by (auto simp: crosses_def Let_def split: if_splits)
  have c: "\<And>e. crosses ?st1 e = crosses st e" by (simp add: crosses_def)
  from Cons.IH [OF step] ces1 show ?case
    by (auto simp: c)
qed

lemma mark_crossing_bbs_frame:
  "mark_crossing_bbs bbs (st, buf) = (st', buf') \<Longrightarrow>
     blocks st' = blocks st \<and> bb_chain st' = bb_chain st
     \<and> (\<forall>e. src (edges st' e) = src (edges st e) \<and> dest (edges st' e) = dest (edges st e)
            \<and> flags (edges st' e) = flags (edges st e))
     \<and> (\<forall>e. e \<notin> (\<Union>i \<in> set bbs. set (succ (blocks st (BB i)))) \<longrightarrow> edges st' e = edges st e)
     \<and> (\<forall>i \<in> set bbs. \<forall>e \<in> set (succ (blocks st (BB i))).
            crossing_edge (edges st' e) = crosses st e)
     \<and> set (crossing_edges_buf buf')
         = set (crossing_edges_buf buf)
           \<union> {e \<in> (\<Union>i \<in> set bbs. set (succ (blocks st (BB i)))). crosses st e}"
proof (induction bbs arbitrary: st buf)
  case Nil
  then show ?case by simp
next
  case (Cons i bbs)
  obtain st1 buf1 where one: "mark_crossing_succ (succ (blocks st (BB i))) (st, buf) = (st1, buf1)"
    by (cases "mark_crossing_succ (succ (blocks st (BB i))) (st, buf)")
  with Cons.prems have rest: "mark_crossing_bbs bbs (st1, buf1) = (st', buf')" by simp
  note f1 = mark_crossing_succ_frame [OF one]
  note f2 = Cons.IH [OF rest]
  have c: "crosses st1 = crosses st" using f1 by (intro crosses_cong) auto
  have b: "blocks st1 = blocks st" using f1 by simp
  have written: "\<forall>e \<in> set (succ (blocks st (BB i))). crossing_edge (edges st' e) = crosses st e"
  proof
    fix e assume e: "e \<in> set (succ (blocks st (BB i)))"
    show "crossing_edge (edges st' e) = crosses st e"
    proof (cases "e \<in> (\<Union>j \<in> set bbs. set (succ (blocks st (BB j))))")
      case True
      then show ?thesis using f2 by (auto simp: b c)
    next
      case False
      then have "edges st' e = edges st1 e" using f2 by (simp add: b)
      then show ?thesis using f1 e by simp
    qed
  qed
  show ?case
  proof (intro conjI)
    show "blocks st' = blocks st" using f1 f2 by simp
    show "bb_chain st' = bb_chain st" using f1 f2 by simp
    show "\<forall>e. src (edges st' e) = src (edges st e) \<and> dest (edges st' e) = dest (edges st e)
            \<and> flags (edges st' e) = flags (edges st e)" using f1 f2 by simp
    show "\<forall>e. e \<notin> (\<Union>i \<in> set (i # bbs). set (succ (blocks st (BB i)))) \<longrightarrow> edges st' e = edges st e"
      using f1 f2 by (simp add: b)
    show "\<forall>j \<in> set (i # bbs). \<forall>e \<in> set (succ (blocks st (BB j))).
            crossing_edge (edges st' e) = crosses st e"
      using written f2 by (simp add: b c)
    show "set (crossing_edges_buf buf')
            = set (crossing_edges_buf buf)
              \<union> {e \<in> (\<Union>i \<in> set (i # bbs). set (succ (blocks st (BB i)))). crosses st e}"
      using f1 f2 by (auto simp: b c)
  qed
qed




text \<open>The first loop writes partitions only.\<close>

lemma mark_partitions_frame:
  "edges (mark_partitions ev bbs st) = edges st
   \<and> bb_chain (mark_partitions ev bbs st) = bb_chain st
   \<and> last_basic_block (mark_partitions ev bbs st) = last_basic_block st
   \<and> n_edges (mark_partitions ev bbs st) = n_edges st
   \<and> (\<forall>b. succ (blocks (mark_partitions ev bbs st) b) = succ (blocks st b)
          \<and> pred (blocks (mark_partitions ev bbs st) b) = pred (blocks st b)
          \<and> insns (blocks (mark_partitions ev bbs st) b) = insns (blocks st b)
          \<and> rbi_next (blocks (mark_partitions ev bbs st) b) = rbi_next (blocks st b))"
  by (induction bbs arbitrary: st) auto

text \<open>
  Claim C10.  When \<open>find_rarely_executed_basic_blocks_and_crossing_edges\<close> returns, the
  \<open>crossing_edge\<close> flag of every successor edge of every block of the chain is true
  exactly when the edge does not start at the entry block, does not end at the exit block
  and joins blocks of different partitions; for every other such edge it is false,
  whatever it was before.
\<close>

theorem crossing_edge_flags_written:
  assumes "find_rarely_executed_basic_blocks_and_crossing_edges ev max_idx st = (st', buf)"
  shows "\<forall>i \<in> set (bb_chain st'). \<forall>e \<in> set (succ (blocks st' (BB i))).
           crossing_edge (edges st' e)
             = (src (edges st' e) \<noteq> ENTRY_BLOCK_PTR \<and> dest (edges st' e) \<noteq> EXIT_BLOCK_PTR
                \<and> partition_bb (blocks st' (src (edges st' e)))
                     \<noteq> partition_bb (blocks st' (dest (edges st' e))))"
proof -
  let ?st1 = "mark_partitions ev (bb_chain st) st"
  from assms have m: "mark_crossing_bbs (bb_chain st)
      (?st1, \<lparr>crossing_edges_buf = [], max_idx_buf = max_idx, reallocated = False\<rparr>) = (st', buf)"
    by (simp add: find_rarely_executed_basic_blocks_and_crossing_edges_def)
  note f = mark_crossing_bbs_frame [OF m]
  note p = mark_partitions_frame [of ev "bb_chain st" st]
  have c: "crosses st' = crosses ?st1" using f by (intro crosses_cong) auto
  have "\<forall>i \<in> set (bb_chain st'). \<forall>e \<in> set (succ (blocks st' (BB i))).
           crossing_edge (edges st' e) = crosses st' e"
    using f p by (simp add: c)
  then show ?thesis by (simp add: crosses_def)
qed

text \<open>
  On \<open>diamond_cfg\<close> block 2 becomes cold: the edges 2 and 4 at block 2 are flagged and
  collected, and the stale flag of edge 3 is cleared.
\<close>

theorem crossing_edge_flags_written_witness:
  "crossing_edge (edges (fst (find_rarely_executed_basic_blocks_and_crossing_edges
                                example_env 8 diamond_cfg)) 2)
   \<and> crossing_edge (edges (fst (find_rarely_executed_basic_blocks_and_crossing_edges
                                example_env 8 diamond_cfg)) 4)
   \<and> \<not> crossing_edge (edges (fst (find_rarely_executed_basic_blocks_and_crossing_edges
                                example_env 8 diamond_cfg)) 3)
   \<and> \<not> crossing_edge (edges (fst (find_rarely_executed_basic_blocks_and_crossing_edges
                                example_env 8 diamond_cfg)) 1)
   \<and> crossing_edges_buf (snd (find_rarely_executed_basic_blocks_and_crossing_edges
                                example_env 8 diamond_cfg)) = [2, 4]"
  using crossing_edge_flags_written [OF surjective_pairing, of example_env 8 diamond_cfg]
  by (simp add: find_rarely_executed_basic_blocks_and_crossing_edges_def example_env_def
      diamond_cfg_def null_bb_def null_edge_def)

subsection \<open>add_labels_and_missing_jumps\<close>

lemma block_label_cases:
  "(labelled st b (snd (block_label b st)) \<and> fst (block_label b st) = st)
   \<or> ((\<forall>l. \<not> labelled st b l)
       \<and> block_label b st =
           (upd_bb b (\<lambda>x. x\<lparr>insns := CODE_LABEL (label_num st) # insns x\<rparr>)
                (st\<lparr>label_num := Suc (label_num st),
                    label_nuses := (label_nuses st)(label_num st := 0)\<rparr>),
              label_num st))"
  by (auto simp: block_label_def labelled_def split: list.splits rtx.splits)

lemma block_label_frame:
  assumes "block_label b st = (st', l)"
  shows "edges st' = edges st" "bb_chain st' = bb_chain st"
    "last_basic_block st' = last_basic_block st" "n_edges st' = n_edges st"
    "\<And>x. succ (blocks st' x) = succ (blocks st x)"
    "\<And>x. pred (blocks st' x) = pred (blocks st x)"
    "\<And>x. partition_bb (blocks st' x) = partition_bb (blocks st x)"
    "\<And>x. rbi_next (blocks st' x) = rbi_next (blocks st x)"
    "\<And>x. rbi_footer (blocks st' x) = rbi_footer (blocks st x)"
    "\<And>x. jump_at_end st' x = jump_at_end st x"
    "\<And>x. insns (blocks st x) \<noteq> [] \<Longrightarrow> insns (blocks st' x) \<noteq> []
              \<and> last (insns (blocks st' x)) = last (insns (blocks st x))"
    "\<And>x k. labelled st x k \<Longrightarrow> labelled st' x k"
    "labelled st' b l"
    "\<And>x. x \<noteq> b \<Longrightarrow> blocks st' x = blocks st x"
  using assms block_label_cases [of st b]
  by (auto simp: jump_at_end_def labelled_def upd_bb_def split: if_splits)

lemma block_label_labelled: "labelled st b l \<Longrightarrow> block_label b st = (st, l)"
  by (auto simp: block_label_def labelled_def)

lemma jumps_added_refl: "jumps_added st st"
  by (simp add: jumps_added_def)

lemma jumps_added_trans:
  assumes "jumps_added st st'" and "jumps_added st' st''"
  shows "jumps_added st st''"
  unfolding jumps_added_def
proof (intro conjI allI impI)
  fix e
  show "flags (edges st'' e) = flags (edges st e)
        \<or> flags (edges st'' e) = flags (edges st e) - {EDGE_FALLTHRU}"
    using assms unfolding jumps_added_def by (metis Diff_idemp)
qed (use assms in \<open>auto simp: jumps_added_def\<close>)

lemma jump_emitted_kept:
  assumes "jumps_added st st'" and "jump_emitted st e"
  shows "jump_emitted st' e"
proof -
  from assms(2) have j: "jump_at_end st (src (edges st e))"
    by (auto simp: jump_emitted_def jump_at_end_def)
  with assms(1) have "jump_at_end st' (src (edges st e))"
    and "last (insns (blocks st' (src (edges st e)))) = last (insns (blocks st (src (edges st e))))"
    and "rbi_footer (blocks st' (src (edges st e))) = rbi_footer (blocks st (src (edges st e)))"
    by (auto simp: jumps_added_def)
  moreover have "src (edges st' e) = src (edges st e)" "dest (edges st' e) = dest (edges st e)"
    and "EDGE_FALLTHRU \<notin> flags (edges st' e)"
    using assms by (auto simp: jumps_added_def jump_emitted_def)
  moreover have "\<And>l. labelled st (dest (edges st e)) l \<Longrightarrow> labelled st' (dest (edges st e)) l"
    using assms(1) by (auto simp: jumps_added_def)
  ultimately show ?thesis using assms(2)
    by (auto simp: jump_emitted_def jump_at_end_def)
qed

lemma add_label_and_missing_jump_None: "add_label_and_missing_jump None st = Inr st"
  by (simp add: add_label_and_missing_jump_def)

lemma add_label_and_missing_jump_unfold:
  assumes "block_label (dest (edges st e)) st = (st1, l)"
  shows "add_label_and_missing_jump (Some e) st =
     (if dest (edges st e) = EXIT_BLOCK_PTR then Inr st
      else if src (edges st e) = ENTRY_BLOCK_PTR then Inr st1
      else if jump_at_end st (src (edges st e)) then Inr st1
      else if length (succ (blocks st (src (edges st e)))) \<noteq> 1 then Inl ABORT
      else Inr (upd_edge e (\<lambda>x. x\<lparr>flags := flags x - {EDGE_FALLTHRU}\<rparr>)
             (upd_bb (src (edges st e)) (\<lambda>x. x\<lparr>rbi_footer := [BARRIER]\<rparr>)
               ((upd_bb (src (edges st e)) (\<lambda>x. x\<lparr>insns := insns x @ [JUMP_INSN False l]\<rparr>) st1)
                  \<lparr>label_nuses := (label_nuses st1)(l := label_nuses st1 l + 1)\<rparr>))))"
proof -
  note f = block_label_frame [OF assms]
  have again: "block_label (dest (edges st e)) st1 = (st1, l)"
    by (rule block_label_labelled) (rule f(13))
  show ?thesis
    unfolding add_label_and_missing_jump_def
    by (simp add: Let_def assms again f)
qed

lemma block_label_jumps_added:
  assumes "block_label b st = (st1, l)"
  shows "jumps_added st st1"
proof -
  note f = block_label_frame [OF assms]
  have "\<And>x. jump_at_end st x \<Longrightarrow> last (insns (blocks st1 x)) = last (insns (blocks st x))"
    using f(11) by (simp add: jump_at_end_def)
  then show ?thesis
    unfolding jumps_added_def using f by auto
qed

lemma emit_jumps_added:
  assumes nj: "\<not> jump_at_end st1 s" and one: "length (succ (blocks st1 s)) = 1"
  shows "jumps_added st1
           (upd_edge e (\<lambda>x. x\<lparr>flags := flags x - {EDGE_FALLTHRU}\<rparr>)
             (upd_bb s (\<lambda>x. x\<lparr>rbi_footer := [BARRIER]\<rparr>)
               ((upd_bb s (\<lambda>x. x\<lparr>insns := insns x @ [JUMP_INSN False l]\<rparr>) st1)
                  \<lparr>label_nuses := (label_nuses st1)(l := label_nuses st1 l + 1)\<rparr>)))"
  using nj one
  by (auto simp: jumps_added_def upd_bb_def upd_edge_def jump_at_end_def labelled_def)

lemma add_label_and_missing_jump_jumps_added:
  assumes "add_label_and_missing_jump c st = Inr st'"
  shows "jumps_added st st'"
proof (cases c)
  case None
  with assms show ?thesis by (simp add: add_label_and_missing_jump_None jumps_added_refl)
next
  case (Some e)
  obtain st1 l where bl: "block_label (dest (edges st e)) st = (st1, l)"
    by (cases "block_label (dest (edges st e)) st")
  note f = block_label_frame [OF bl]
  note u = add_label_and_missing_jump_unfold [OF bl]
  note a = block_label_jumps_added [OF bl]
  let ?s = "src (edges st e)"
  consider (exit) "dest (edges st e) = EXIT_BLOCK_PTR"
    | (labelled_only) "dest (edges st e) \<noteq> EXIT_BLOCK_PTR"
        "?s = ENTRY_BLOCK_PTR \<or> jump_at_end st ?s"
    | (emit) "dest (edges st e) \<noteq> EXIT_BLOCK_PTR" "?s \<noteq> ENTRY_BLOCK_PTR"
        "\<not> jump_at_end st ?s" by blast
  then show ?thesis
  proof cases
    case exit
    with assms Some u show ?thesis by (simp add: jumps_added_refl)
  next
    case labelled_only
    with assms Some u have "st' = st1" by (auto split: if_splits)
    with a show ?thesis by simp
  next
    case emit
    with assms Some u have one: "length (succ (blocks st ?s)) = 1"
      by (auto split: if_splits)
    with assms Some u emit have st': "st' =
        upd_edge e (\<lambda>x. x\<lparr>flags := flags x - {EDGE_FALLTHRU}\<rparr>)
             (upd_bb ?s (\<lambda>x. x\<lparr>rbi_footer := [BARRIER]\<rparr>)
               ((upd_bb ?s (\<lambda>x. x\<lparr>insns := insns x @ [JUMP_INSN False l]\<rparr>) st1)
                  \<lparr>label_nuses := (label_nuses st1)(l := label_nuses st1 l + 1)\<rparr>))"
      by simp
    have "jumps_added st1 st'" unfolding st'
      by (rule emit_jumps_added) (use emit one f in simp_all)
    with a show ?thesis by (rule jumps_added_trans)
  qed
qed

lemma add_label_and_missing_jump_emits:
  assumes r: "add_label_and_missing_jump (Some e) st = Inr st'"
    and d: "dest (edges st e) \<noteq> EXIT_BLOCK_PTR" and s: "src (edges st e) \<noteq> ENTRY_BLOCK_PTR"
    and nj: "\<not> jump_at_end st (src (edges st e))"
  shows "jump_emitted st' e \<and> length (succ (blocks st (src (edges st e)))) = 1"
proof -
  obtain st1 l where bl: "block_label (dest (edges st e)) st = (st1, l)"
    by (cases "block_label (dest (edges st e)) st")
  note f = block_label_frame [OF bl]
  note u = add_label_and_missing_jump_unfold [OF bl]
  let ?s = "src (edges st e)"
  from r u d s nj have one: "length (succ (blocks st ?s)) = 1"
    by (auto split: if_splits)
  with r u d s nj have st': "st' =
        upd_edge e (\<lambda>x. x\<lparr>flags := flags x - {EDGE_FALLTHRU}\<rparr>)
             (upd_bb ?s (\<lambda>x. x\<lparr>rbi_footer := [BARRIER]\<rparr>)
               ((upd_bb ?s (\<lambda>x. x\<lparr>insns := insns x @ [JUMP_INSN False l]\<rparr>) st1)
                  \<lparr>label_nuses := (label_nuses st1)(l := label_nuses st1 l + 1)\<rparr>))"
    by simp
  have lab: "labelled st1 (dest (edges st e)) l" by (rule f(13))
  have e1: "edges st1 = edges st" by (rule f(1))
  have "jump_emitted st' e"
    unfolding st' jump_emitted_def using lab
    by (auto simp: upd_bb_def upd_edge_def e1 labelled_def)
  with one show ?thesis by simp
qed

lemma add_label_and_missing_jump_aborts:
  assumes d: "dest (edges st e) \<noteq> EXIT_BLOCK_PTR" and s: "src (edges st e) \<noteq> ENTRY_BLOCK_PTR"
    and nj: "\<not> jump_at_end st (src (edges st e))"
    and many: "length (succ (blocks st (src (edges st e)))) \<noteq> 1"
  shows "add_label_and_missing_jump (Some e) st = Inl ABORT"
proof -
  obtain st1 l where bl: "block_label (dest (edges st e)) st = (st1, l)"
    by (cases "block_label (dest (edges st e)) st")
  from add_label_and_missing_jump_unfold [OF bl] assms show ?thesis by simp
qed

lemma add_labels_and_missing_jumps_jumps_added:
  "add_labels_and_missing_jumps cs st = Inr st' \<Longrightarrow> jumps_added st st'"
proof (induction cs arbitrary: st)
  case Nil
  then show ?case by (simp add: jumps_added_refl)
next
  case (Cons c cs)
  then obtain st1 where one: "add_label_and_missing_jump c st = Inr st1"
    and rest: "add_labels_and_missing_jumps cs st1 = Inr st'"
    by (auto split: sum.splits)
  from add_label_and_missing_jump_jumps_added [OF one] Cons.IH [OF rest]
  show ?case by (rule jumps_added_trans)
qed

lemma add_label_and_missing_jump_failure:
  "add_label_and_missing_jump c st = Inl f \<Longrightarrow> f = ABORT"
proof (cases c)
  case None
  assume "add_label_and_missing_jump c st = Inl f"
  with None show ?thesis by (simp add: add_label_and_missing_jump_None)
next
  case (Some e)
  assume a: "add_label_and_missing_jump c st = Inl f"
  obtain st1 l where bl: "block_label (dest (edges st e)) st = (st1, l)"
    by (cases "block_label (dest (edges st e)) st")
  from a Some add_label_and_missing_jump_unfold [OF bl] show ?thesis
    by (auto split: if_splits)
qed

lemma add_label_and_missing_jump_new_jump:
  assumes r: "add_label_and_missing_jump c st = Inr st'"
    and nj: "\<not> jump_at_end st b" and j: "jump_at_end st' b"
  shows "\<exists>e. c = Some e \<and> src (edges st e) = b \<and> length (succ (blocks st b)) = 1"
proof (cases c)
  case None
  with r nj j show ?thesis by (simp add: add_label_and_missing_jump_None)
next
  case (Some e)
  obtain st1 l where bl: "block_label (dest (edges st e)) st = (st1, l)"
    by (cases "block_label (dest (edges st e)) st")
  note f = block_label_frame [OF bl]
  note u = add_label_and_missing_jump_unfold [OF bl]
  have nj1: "\<not> jump_at_end st1 b" using nj f by simp
  show ?thesis
  proof (rule ccontr)
    assume no: "\<not> ?thesis"
    have "\<not> jump_at_end st' b"
    proof (cases "st' = st \<or> st' = st1")
      case True
      with nj nj1 show ?thesis by auto
    next
      case False
      with r Some u have st': "st' =
        upd_edge e (\<lambda>x. x\<lparr>flags := flags x - {EDGE_FALLTHRU}\<rparr>)
             (upd_bb (src (edges st e)) (\<lambda>x. x\<lparr>rbi_footer := [BARRIER]\<rparr>)
               ((upd_bb (src (edges st e)) (\<lambda>x. x\<lparr>insns := insns x @ [JUMP_INSN False l]\<rparr>) st1)
                  \<lparr>label_nuses := (label_nuses st1)(l := label_nuses st1 l + 1)\<rparr>))"
        and one: "length (succ (blocks st (src (edges st e)))) = 1"
        by (auto split: if_splits)
      from no Some one have "src (edges st e) \<noteq> b" by auto
      then show ?thesis using nj1 unfolding st'
        by (simp add: jump_at_end_def upd_bb_def upd_edge_def)
    qed
    with j show False by simp
  qed
qed

lemma add_labels_and_missing_jumps_failure:
  "add_labels_and_missing_jumps cs st = Inl f \<Longrightarrow> f = ABORT"
proof (induction cs arbitrary: st)
  case Nil
  then show ?case by simp
next
  case (Cons c cs)
  then show ?case
    by (auto split: sum.splits dest: add_label_and_missing_jump_failure)
qed

lemma add_labels_and_missing_jumps_aborts:
  assumes "Some e \<in> set cs"
    and "dest (edges st e) \<noteq> EXIT_BLOCK_PTR" and "src (edges st e) \<noteq> ENTRY_BLOCK_PTR"
    and "\<not> jump_at_end st (src (edges st e))"
    and "length (succ (blocks st (src (edges st e)))) \<noteq> 1"
  shows "add_labels_and_missing_jumps cs st = Inl ABORT"
  using assms
proof (induction cs arbitrary: st)
  case Nil
  then show ?case by simp
next
  case (Cons c cs)
  show ?case
  proof (cases "add_label_and_missing_jump c st")
    case (Inl f)
    then have "f = ABORT" by (rule add_label_and_missing_jump_failure)
    with Inl show ?thesis by simp
  next
    case (Inr st1)
    note a = add_label_and_missing_jump_jumps_added [OF Inr]
    have "c \<noteq> Some e"
      using Inr add_label_and_missing_jump_aborts [of st e] Cons.prems by auto
    with Cons.prems have mem: "Some e \<in> set cs" by simp
    have same: "src (edges st1 e) = src (edges st e)" "dest (edges st1 e) = dest (edges st e)"
      "succ (blocks st1 (src (edges st e))) = succ (blocks st (src (edges st e)))"
      using a by (simp_all add: jumps_added_def)
    have nj: "\<not> jump_at_end st1 (src (edges st e))"
      using a Cons.prems(4,5) by (auto simp: jumps_added_def)
    have "add_labels_and_missing_jumps cs st1 = Inl ABORT"
      by (rule Cons.IH) (use mem same nj Cons.prems in simp_all)
    with Inr show ?thesis by simp
  qed
qed

lemma add_labels_and_missing_jumps_emits:
  assumes "add_labels_and_missing_jumps cs st = Inr st'"
    and "Some e \<in> set cs"
    and "\<forall>x. Some x \<in> set cs \<longrightarrow> x \<in> set (succ (blocks st (src (edges st x))))"
    and "dest (edges st e) \<noteq> EXIT_BLOCK_PTR" and "src (edges st e) \<noteq> ENTRY_BLOCK_PTR"
    and "\<not> jump_at_end st (src (edges st e))"
  shows "jump_emitted st' e \<and> length (succ (blocks st (src (edges st e)))) = 1"
  using assms
proof (induction cs arbitrary: st)
  case Nil
  then show ?case by simp
next
  case (Cons c cs)
  from Cons.prems(1) obtain st1 where one: "add_label_and_missing_jump c st = Inr st1"
    and rest: "add_labels_and_missing_jumps cs st1 = Inr st'"
    by (auto split: sum.splits)
  note a = add_label_and_missing_jump_jumps_added [OF one]
  note b = add_labels_and_missing_jumps_jumps_added [OF rest]
  show ?case
  proof (cases "c = Some e")
    case True
    with one Cons.prems have "jump_emitted st1 e \<and> length (succ (blocks st (src (edges st e)))) = 1"
      by (intro add_label_and_missing_jump_emits) simp_all
    with b show ?thesis by (auto intro: jump_emitted_kept)
  next
    case False
    with Cons.prems(2) have mem: "Some e \<in> set cs" by simp
    have same: "src (edges st1 e) = src (edges st e)" "dest (edges st1 e) = dest (edges st e)"
      "succ (blocks st1 (src (edges st e))) = succ (blocks st (src (edges st e)))"
      using a by (simp_all add: jumps_added_def)
    have wf1: "\<forall>x. Some x \<in> set cs \<longrightarrow> x \<in> set (succ (blocks st1 (src (edges st1 x))))"
      using Cons.prems(3) a by (simp add: jumps_added_def)
    have nj: "\<not> jump_at_end st1 (src (edges st e))"
    proof
      assume "jump_at_end st1 (src (edges st e))"
      with one Cons.prems(6) obtain e1 where c: "c = Some e1"
        and s: "src (edges st e1) = src (edges st e)"
        and l: "length (succ (blocks st (src (edges st e)))) = 1"
        using add_label_and_missing_jump_new_jump by blast
      from Cons.prems(3) c s have "e1 \<in> set (succ (blocks st (src (edges st e))))" by auto
      moreover from Cons.prems(2,3) have "e \<in> set (succ (blocks st (src (edges st e))))"
        by auto
      ultimately have "e1 = e" using l
        by (cases "succ (blocks st (src (edges st e)))") auto
      with c False show False by simp
    qed
    have "jump_emitted st' e \<and> length (succ (blocks st1 (src (edges st1 e)))) = 1"
      by (rule Cons.IH [OF rest mem wf1]) (use same nj Cons.prems in simp_all)
    then show ?thesis by (simp add: same)
  qed
qed

text \<open>
  Claim C8.  Let \<open>e\<close> be an entry of \<open>crossing_edges\<close> that joins two real blocks (as every
  crossing edge does) and whose source does not end in a jump, every listed edge being a
  successor edge of its source.  If the source has more than one successor the pass
  aborts.  If it has exactly one, the iteration for \<open>e\<close> emits an unconditional jump to
  the label of the destination at the end of the source, leaves the barrier in the footer
  of the source and clears \<open>EDGE_FALLTHRU\<close>; and whenever the whole loop returns, this
  is what the final state shows for \<open>e\<close>.
\<close>

theorem add_labels_and_missing_jumps_fall_through:
  assumes "Some e \<in> set crossing_edges"
    and "\<forall>x. Some x \<in> set crossing_edges \<longrightarrow> x \<in> set (succ (blocks st (src (edges st x))))"
    and "dest (edges st e) \<noteq> EXIT_BLOCK_PTR" and "src (edges st e) \<noteq> ENTRY_BLOCK_PTR"
    and "\<not> jump_at_end st (src (edges st e))"
  shows "(length (succ (blocks st (src (edges st e)))) > 1
            \<longrightarrow> add_label_and_missing_jump (Some e) st = Inl ABORT
                \<and> add_labels_and_missing_jumps crossing_edges st = Inl ABORT)
       \<and> (length (succ (blocks st (src (edges st e)))) = 1
            \<longrightarrow> (\<exists>st1. add_label_and_missing_jump (Some e) st = Inr st1 \<and> jump_emitted st1 e))
       \<and> (\<forall>st'. add_labels_and_missing_jumps crossing_edges st = Inr st'
            \<longrightarrow> length (succ (blocks st (src (edges st e)))) = 1
                \<and> src (edges st' e) = src (edges st e) \<and> dest (edges st' e) = dest (edges st e)
                \<and> EDGE_FALLTHRU \<notin> flags (edges st' e)
                \<and> insns (blocks st' (src (edges st e))) \<noteq> []
                \<and> (\<exists>l r. last (insns (blocks st' (src (edges st e)))) = JUMP_INSN False l
                         \<and> insns (blocks st' (dest (edges st e))) = CODE_LABEL l # r)
                \<and> rbi_footer (blocks st' (src (edges st e))) = [BARRIER])"
proof (intro conjI impI allI)
  assume many: "1 < length (succ (blocks st (src (edges st e))))"
  then have ne: "length (succ (blocks st (src (edges st e)))) \<noteq> 1" by simp
  show "add_label_and_missing_jump (Some e) st = Inl ABORT"
    using assms(3-5) ne by (rule add_label_and_missing_jump_aborts)
  show "add_labels_and_missing_jumps crossing_edges st = Inl ABORT"
    using assms(1,3-5) ne by (rule add_labels_and_missing_jumps_aborts)
next
  assume one: "length (succ (blocks st (src (edges st e)))) = 1"
  show "\<exists>st1. add_label_and_missing_jump (Some e) st = Inr st1 \<and> jump_emitted st1 e"
  proof (cases "add_label_and_missing_jump (Some e) st")
    case (Inl f)
    obtain st1 l where bl: "block_label (dest (edges st e)) st = (st1, l)"
      by (cases "block_label (dest (edges st e)) st")
    from Inl add_label_and_missing_jump_unfold [OF bl] assms(3-5) one show ?thesis by simp
  next
    case (Inr st1)
    with add_label_and_missing_jump_emits [OF Inr assms(3-5)] show ?thesis by simp
  qed
next
  fix st'
  assume r: "add_labels_and_missing_jumps crossing_edges st = Inr st'"
  note em = add_labels_and_missing_jumps_emits [OF r assms]
  note a = add_labels_and_missing_jumps_jumps_added [OF r]
  show "length (succ (blocks st (src (edges st e)))) = 1" using em by simp
  show sd: "src (edges st' e) = src (edges st e)" "dest (edges st' e) = dest (edges st e)"
    using a by (simp_all add: jumps_added_def)
  show "EDGE_FALLTHRU \<notin> flags (edges st' e)" using em by (simp add: jump_emitted_def)
  show "insns (blocks st' (src (edges st e))) \<noteq> []"
    using em sd by (simp add: jump_emitted_def)
  show "\<exists>l r. last (insns (blocks st' (src (edges st e)))) = JUMP_INSN False l
                \<and> insns (blocks st' (dest (edges st e))) = CODE_LABEL l # r"
    using em sd by (auto simp: jump_emitted_def labelled_def)
  show "rbi_footer (blocks st' (src (edges st e))) = [BARRIER]"
    using em sd by (simp add: jump_emitted_def)
qed

text \<open>
  In \<open>fork_cfg\<close> the crossing edge 0 leaves block 0, which has two successors and no
  jump: the pass aborts.  In \<open>diamond_cfg\<close>, once the crossing edges 2 and 4 are found,
  edge 4 leaves block 2, which has one successor and no jump: block 2 gets the jump to
  label 1 of block 3 and the barrier as its footer, and edge 4 loses \<open>EDGE_FALLTHRU\<close>.
\<close>

theorem add_labels_and_missing_jumps_fall_through_witness:
  "add_labels_and_missing_jumps [Some 0] fork_cfg = Inl ABORT
   \<and> (case add_labels_and_missing_jumps [Some 2, Some 4]
             (fst (find_rarely_executed_basic_blocks_and_crossing_edges example_env 8 diamond_cfg)) of
         Inl f \<Rightarrow> False
       | Inr st' \<Rightarrow> insns (blocks st' (BB 2)) = [CODE_LABEL 0, NOTE, INSN, JUMP_INSN False 1]
                    \<and> insns (blocks st' (BB 3)) = [CODE_LABEL 1, NOTE, INSN]
                    \<and> rbi_footer (blocks st' (BB 2)) = [BARRIER]
                    \<and> flags (edges st' 4) = {})"
  using add_labels_and_missing_jumps_fall_through [of 0 "[Some 0]" fork_cfg]
        add_labels_and_missing_jumps_fall_through [of 4 "[Some 2, Some 4]"
          "fst (find_rarely_executed_basic_blocks_and_crossing_edges example_env 8 diamond_cfg)"]
  by (simp add: find_rarely_executed_basic_blocks_and_crossing_edges_def example_env_def
      diamond_cfg_def fork_cfg_def null_bb_def null_edge_def
      add_label_and_missing_jump_def block_label_def jump_at_end_def Let_def
      upd_bb_def upd_edge_def)

subsection \<open>fix_up_fall_thru_edges\<close>





lemma same_graph_find_fall_thru:
  "same_graph st st' \<Longrightarrow> find_fall_thru st' b = find_fall_thru st b"
  unfolding same_graph_def find_fall_thru_def
  by (elim conjE) (simp cong: option.case_cong if_cong)

lemma same_graph_crosses: "same_graph st st' \<Longrightarrow> crosses st' = crosses st"
  by (auto simp: same_graph_def crosses_def fun_eq_iff)




































subsection \<open>The two entry points\<close>

text \<open>
  Claim C1, as the code has it.  \<open>reorder_basic_blocks\<close> returns the state as it is when
  the function has at most one basic block and when the target says that jumps cannot be
  modified.  \<open>partition_hot_cold_basic_blocks\<close> returns the state as it is when the
  function has at most one basic block; it does not ask the target hook.
\<close>

theorem entry_points_no_op:
  "((n_basic_blocks st \<le> 1 \<or> cannot_modify_jumps_p ev)
      \<longrightarrow> reorder_basic_blocks ev pass layout_flags st = st)
   \<and> (n_basic_blocks st \<le> 1 \<longrightarrow> partition_hot_cold_basic_blocks fuel ev st = Inr st)"
  by (simp add: reorder_basic_blocks_def partition_hot_cold_basic_blocks_def Let_def)

theorem entry_points_no_op_witness:
  "reorder_basic_blocks example_env (\<lambda>f st. st\<lparr>bb_chain := []\<rparr>) 0 single_block_cfg = single_block_cfg
   \<and> reorder_basic_blocks (example_env\<lparr>cannot_modify_jumps_p := True\<rparr>)
        (\<lambda>f st. st\<lparr>bb_chain := []\<rparr>) 0 diamond_cfg = diamond_cfg
   \<and> partition_hot_cold_basic_blocks 0 example_env single_block_cfg = Inr single_block_cfg"
  using entry_points_no_op [of single_block_cfg example_env "\<lambda>f st. st\<lparr>bb_chain := []\<rparr>" 0 0]
        entry_points_no_op [of diamond_cfg "example_env\<lparr>cannot_modify_jumps_p := True\<rparr>"
                               "\<lambda>f st. st\<lparr>bb_chain := []\<rparr>" 0 0]
  by (simp add: n_basic_blocks_def single_block_cfg_def example_env_def)

text \<open>
  The claim as written fails for \<open>partition_hot_cold_basic_blocks\<close>: with a target whose
  hook says that jumps cannot be modified the pass still runs on \<open>diamond_cfg\<close>.  It
  moves block 2 to the cold partition and gives it a jump.
\<close>

theorem partition_ignores_cannot_modify_jumps_counterexample:
  "cannot_modify_jumps_p (example_env\<lparr>cannot_modify_jumps_p := True\<rparr>)
   \<and> partition_bb (blocks diamond_cfg (BB 2)) = HOT_PARTITION
   \<and> insns (blocks diamond_cfg (BB 2)) = [CODE_LABEL 0, NOTE, INSN]
   \<and> (case partition_hot_cold_basic_blocks 10 (example_env\<lparr>cannot_modify_jumps_p := True\<rparr>)
             diamond_cfg of
         Inl f \<Rightarrow> False
       | Inr st' \<Rightarrow> partition_bb (blocks st' (BB 2)) = COLD_PARTITION
                    \<and> insns (blocks st' (BB 2)) = [CODE_LABEL 0, NOTE, INSN, JUMP_INSN False 1])"
  by (simp add: partition_hot_cold_basic_blocks_def fix_edges_for_rarely_executed_code_def
      fix_up_fall_thru_edges_def fix_up_fall_thru_edge_def find_fall_thru_def
      n_basic_blocks_def eval_nat_numeral
      find_rarely_executed_basic_blocks_and_crossing_edges_def example_env_def
      diamond_cfg_def null_bb_def null_edge_def
      add_label_and_missing_jump_def block_label_def jump_at_end_def Let_def
      upd_bb_def upd_edge_def)

section \<open>Properties of the trace formation\<close>

lemma four_fifths:
  assumes "0 \<le> f" and "4 * f \<le> INT_MAX"
  shows "(x > int_wrap (4 * f) sdiv 5) = (5 * x > 4 * (f::int))"
proof -
  have "0 \<le> INT_MAX" by (simp add: INT_MAX_def)
  with assms have "int_wrap (4 * f) = 4 * f" by (intro int_wrap_id) linarith+
  moreover from assms(1) have "(4 * f) sdiv 5 = (4 * f) div 5" by (simp add: sdiv_nonneg)
  ultimately show ?thesis by presburger
qed

text \<open>
  Claim C6.  Let the destination of the best edge be visited in the current trace
  (\<open>rbi_visited = n_traces\<close>), with a non-negative frequency whose fourfold fits into
  \<open>int\<close>.  Then the trace is terminated.  When the destination is the current block
  itself nothing else happens: no rotation, no duplication.  Otherwise \<open>rotate_loop\<close> is
  called, with the best edge, exactly when the frequency of the edge is above four fifths
  of the frequency of the destination and the destination is not the first block of the
  function (\<open>ENTRY_BLOCK_PTR->next_bb\<close>).
\<close>

theorem loop_closing_step:
  assumes "rbi_visited (blocks st (dest (edges st best_edge))) = n_traces"
    and "0 \<le> frequency (blocks st (dest (edges st best_edge)))"
    and "4 * frequency (blocks st (dest (edges st best_edge))) \<le> INT_MAX"
  shows "(\<exists>a. successor_found ev st bb best_edge n_traces = TERMINATE a)
       \<and> (dest (edges st best_edge) = bb
            \<longrightarrow> successor_found ev st bb best_edge n_traces = TERMINATE NOTHING)
       \<and> (dest (edges st best_edge) \<noteq> bb
            \<longrightarrow> (successor_found ev st bb best_edge n_traces = TERMINATE (ROTATE_LOOP best_edge))
                = (5 * EDGE_FREQUENCY ev st best_edge
                     > 4 * frequency (blocks st (dest (edges st best_edge)))
                   \<and> Some (dest (edges st best_edge)) \<noteq> next_bb st ENTRY_BLOCK_PTR))
       \<and> (\<forall>e. successor_found ev st bb best_edge n_traces = TERMINATE (ROTATE_LOOP e)
               \<longrightarrow> e = best_edge)"
  using assms by (auto simp: successor_found_def four_fifths)

text \<open>
  On \<open>no_copy_env\<close> the destination of the back edge cannot be copied, so the edge is
  still the best edge when the code gets here.  In \<open>loop_cfg_in_trace\<close> the back edge 3
  from block 2 to block 1 has frequency 85, above \<open>4 * 100 / 5\<close>, and block 1 is not the
  first block: the loop is rotated.  With a probability of 8000 the frequency is 80, not
  above 80: no rotation.  In \<open>entry_loop_cfg\<close> the back edge leads into the first block 0
  and is not rotated either.  In \<open>self_loop_cfg\<close> nothing happens.
\<close>

theorem loop_closing_step_witness:
  "\<not> copy_bb_p no_copy_env loop_cfg_in_trace (BB 1) False
   \<and> successor_found no_copy_env loop_cfg_in_trace (BB 2) 3 1 = TERMINATE (ROTATE_LOOP 3)
   \<and> successor_found no_copy_env
        (upd_edge 3 (\<lambda>x. x\<lparr>probability := 8000\<rparr>) loop_cfg_in_trace) (BB 2) 3 1
       \<noteq> TERMINATE (ROTATE_LOOP 3)
   \<and> \<not> copy_bb_p no_copy_env entry_loop_cfg (BB 0) False
   \<and> successor_found no_copy_env entry_loop_cfg (BB 2) 3 1 \<noteq> TERMINATE (ROTATE_LOOP 3)
   \<and> \<not> copy_bb_p no_copy_env self_loop_cfg (BB 2) False
   \<and> successor_found no_copy_env self_loop_cfg (BB 2) 3 1 = TERMINATE NOTHING"
proof -
  note defs = no_copy_env_def example_env_def loop_cfg_in_trace_def self_loop_cfg_def
      entry_loop_cfg_def loop_cfg_def null_bb_def null_edge_def signed_divide_int_def
      INT_MAX_def
  let ?low = "upd_edge 3 (\<lambda>x. x\<lparr>probability := 8000\<rparr>) loop_cfg_in_trace"
  have n: "\<not> copy_bb_p no_copy_env loop_cfg_in_trace (BB 1) False"
    "\<not> copy_bb_p no_copy_env entry_loop_cfg (BB 0) False"
    "\<not> copy_bb_p no_copy_env self_loop_cfg (BB 2) False"
    by (simp_all add: copy_bb_p_def no_copy_env_def)
  have a: "rbi_visited (blocks loop_cfg_in_trace (dest (edges loop_cfg_in_trace 3))) = 1"
    "0 \<le> frequency (blocks loop_cfg_in_trace (dest (edges loop_cfg_in_trace 3)))"
    "4 * frequency (blocks loop_cfg_in_trace (dest (edges loop_cfg_in_trace 3))) \<le> INT_MAX"
    "dest (edges loop_cfg_in_trace 3) \<noteq> BB 2"
    "5 * EDGE_FREQUENCY no_copy_env loop_cfg_in_trace 3
       > 4 * frequency (blocks loop_cfg_in_trace (dest (edges loop_cfg_in_trace 3)))"
    "Some (dest (edges loop_cfg_in_trace 3)) \<noteq> next_bb loop_cfg_in_trace ENTRY_BLOCK_PTR"
    by (simp_all add: defs)
  have b: "rbi_visited (blocks ?low (dest (edges ?low 3))) = 1"
    "0 \<le> frequency (blocks ?low (dest (edges ?low 3)))"
    "4 * frequency (blocks ?low (dest (edges ?low 3))) \<le> INT_MAX"
    "dest (edges ?low 3) \<noteq> BB 2"
    "\<not> 5 * EDGE_FREQUENCY no_copy_env ?low 3
       > 4 * frequency (blocks ?low (dest (edges ?low 3)))"
    by (simp_all add: defs)
  have c: "rbi_visited (blocks entry_loop_cfg (dest (edges entry_loop_cfg 3))) = 1"
    "0 \<le> frequency (blocks entry_loop_cfg (dest (edges entry_loop_cfg 3)))"
    "4 * frequency (blocks entry_loop_cfg (dest (edges entry_loop_cfg 3))) \<le> INT_MAX"
    "dest (edges entry_loop_cfg 3) \<noteq> BB 2"
    "\<not> Some (dest (edges entry_loop_cfg 3)) \<noteq> next_bb entry_loop_cfg ENTRY_BLOCK_PTR"
    by (simp_all add: defs)
  have d: "rbi_visited (blocks self_loop_cfg (dest (edges self_loop_cfg 3))) = 1"
    "0 \<le> frequency (blocks self_loop_cfg (dest (edges self_loop_cfg 3)))"
    "4 * frequency (blocks self_loop_cfg (dest (edges self_loop_cfg 3))) \<le> INT_MAX"
    "dest (edges self_loop_cfg 3) = BB 2"
    by (simp_all add: defs)
  from loop_closing_step [OF a(1,2,3), of no_copy_env "BB 2"] a(4,5,6)
  have "successor_found no_copy_env loop_cfg_in_trace (BB 2) 3 1 = TERMINATE (ROTATE_LOOP 3)"
    by blast
  moreover from loop_closing_step [OF b(1,2,3), of no_copy_env "BB 2"] b(4,5)
  have "successor_found no_copy_env ?low (BB 2) 3 1 \<noteq> TERMINATE (ROTATE_LOOP 3)"
    by blast
  moreover from loop_closing_step [OF c(1,2,3), of no_copy_env "BB 2"] c(4,5)
  have "successor_found no_copy_env entry_loop_cfg (BB 2) 3 1 \<noteq> TERMINATE (ROTATE_LOOP 3)"
    by blast
  moreover from loop_closing_step [OF d(1,2,3), of no_copy_env "BB 2"] d(4)
  have "successor_found no_copy_env self_loop_cfg (BB 2) 3 1 = TERMINATE NOTHING"
    by blast
  ultimately show ?thesis using n by blast
qed

section \<open>Properties of the trace connection\<close>

lemma nothing_copied_refl: "nothing_copied cs cs"
  by (simp add: nothing_copied_def)

lemma nothing_copied_trans:
  "nothing_copied a b \<Longrightarrow> nothing_copied b c \<Longrightarrow> nothing_copied a c"
  by (simp add: nothing_copied_def)

lemma count_down_nothing_copied: "nothing_copied cs (count_down cs)"
  by (simp add: nothing_copied_def count_down_def)

lemma nothing_copied_locals:
  "nothing_copied cs (cs\<lparr>connected := c\<rparr>)"
  "nothing_copied cs (cs\<lparr>last_trace := l\<rparr>)"
  "nothing_copied cs (cs\<lparr>cold_connected := b\<rparr>)"
  "nothing_copied cs (cs\<lparr>graph := upd_bb x f (graph cs)\<rparr>)"
  by (simp_all add: nothing_copied_def)

lemma mark_cold_traces_nothing_copied: "nothing_copied cs (mark_cold_traces is cs)"
proof (induction "is" arbitrary: cs)
  case Nil
  show ?case by (simp add: nothing_copied_refl)
next
  case (Cons i "is")
  have "nothing_copied cs
          (if partition_bb (blocks (graph cs) (first (traces cs i))) = COLD_PARTITION
           then cs\<lparr>connected := (connected cs)(i := True),
                cold_traces := (cold_traces cs)(i := True),
                cold_connected := False\<rparr>
           else cs\<lparr>unconnected_hot_trace_count := unconnected_hot_trace_count cs + 1\<rparr>)"
    by (simp add: nothing_copied_def)
  then show ?case using Cons.IH by (auto intro: nothing_copied_trans)
qed

lemma unmark_cold_traces_nothing_copied:
  "unmark_cold_traces js (cs, f) = (cs', f') \<Longrightarrow> nothing_copied cs cs'"
proof (induction js arbitrary: cs f)
  case Nil
  then show ?case by (simp add: nothing_copied_refl)
next
  case (Cons j js)
  show ?case
  proof (cases "cold_traces cs j")
    case True
    with Cons.prems have "unmark_cold_traces js
        (cs\<lparr>connected := (connected cs)(j := False)\<rparr>, if f = -1 then j else f) = (cs', f')"
      by simp
    from Cons.IH [OF this] show ?thesis by (simp add: nothing_copied_def)
  next
    case False
    with Cons.prems Cons.IH show ?thesis by simp
  qed
qed

lemma connect_predecessors_nothing_copied:
  "(\<forall>cs' t2'. connect_predecessors fuel t2 cs = Inr (cs', t2') \<longrightarrow> nothing_copied cs cs')
   \<and> (\<forall>f. connect_predecessors fuel t2 cs = Inl f \<longrightarrow> f = OUT_OF_FUEL)"
proof (induction fuel arbitrary: t2 cs)
  case 0
  show ?case by simp
next
  case (Suc fuel)
  show ?case
  proof (cases "t2 > 0")
    case False
    then show ?thesis by (simp add: nothing_copied_refl)
  next
    case True
    obtain best best_len where b: "best_predecessor cs
        (pred (blocks (graph cs) (first (traces cs t2)))) (None, 0) = (best, best_len)"
      by (cases "best_predecessor cs (pred (blocks (graph cs) (first (traces cs t2)))) (None, 0)")
    show ?thesis
    proof (cases best)
      case None
      with True b show ?thesis by (simp add: nothing_copied_refl)
    next
      case (Some e)
      define cs1 where "cs1 = cs\<lparr>graph := upd_bb (src (edges (graph cs) e))
                                          (\<lambda>x. x\<lparr>rbi_next := Some (dest (edges (graph cs) e))\<rparr>) (graph cs)\<rparr>"
      define t2' where "t2' = end_of_trace (bbd cs1 (index (src (edges (graph cs) e))))"
      define cs2 where "cs2 = count_down (cs1\<lparr>connected := (connected cs1)(t2' := True)\<rparr>)"
      have step: "connect_predecessors (Suc fuel) t2 cs = connect_predecessors fuel t2' cs2"
        using True b Some by (simp add: Let_def cs1_def t2'_def cs2_def)
      have "nothing_copied cs cs2"
        by (simp add: cs2_def cs1_def nothing_copied_def count_down_def)
      with Suc.IH [of t2' cs2] show ?thesis
        unfolding step by (auto intro: nothing_copied_trans)
    qed
  qed
qed

lemma connect_by_duplication_partition:
  assumes "flag_reorder_blocks_and_partition ev"
  shows "connect_by_duplication ev ft ct t cs = Inr (cs, None)"
  using assms
  by (simp add: connect_by_duplication_def Let_def split: prod.splits option.splits)

lemma connect_successors_nothing_copied:
  assumes "flag_reorder_blocks_and_partition ev"
  shows "(\<forall>cs'. connect_successors fuel ev ft ct t cs = Inr cs' \<longrightarrow> nothing_copied cs cs')
   \<and> (\<forall>f. connect_successors fuel ev ft ct t cs = Inl f \<longrightarrow> f = OUT_OF_FUEL)"
proof (induction fuel arbitrary: t cs)
  case 0
  show ?case by simp
next
  case (Suc fuel)
  obtain best best_len where b: "best_successor cs
        (succ (blocks (graph cs) (last_t (traces cs t)))) (None, 0) = (best, best_len)"
    by (cases "best_successor cs (succ (blocks (graph cs) (last_t (traces cs t)))) (None, 0)")
  show ?case
  proof (cases best)
    case None
    with b show ?thesis
      by (simp add: connect_by_duplication_partition [OF assms] nothing_copied_refl)
  next
    case (Some e)
    define t' where "t' = start_of_trace (bbd cs (index (dest (edges (graph cs) e))))"
    define cs1 where "cs1 = cs\<lparr>graph := upd_bb (last_t (traces cs (last_trace cs)))
                                    (\<lambda>x. x\<lparr>rbi_next := Some (first (traces cs t'))\<rparr>) (graph cs)\<rparr>"
    define cs2 where "cs2 = (count_down (cs1\<lparr>connected := (connected cs1)(t' := True)\<rparr>))\<lparr>last_trace := t'\<rparr>"
    have step: "connect_successors (Suc fuel) ev ft ct t cs = connect_successors fuel ev ft ct t' cs2"
      using b Some by (simp add: Let_def cs1_def t'_def cs2_def)
    have "nothing_copied cs cs2"
      by (simp add: cs2_def cs1_def nothing_copied_def count_down_def)
    with Suc.IH [of t' cs2] show ?thesis
      unfolding step by (auto intro: nothing_copied_trans)
  qed
qed

lemma connect_traces_loop_nothing_copied:
  assumes "flag_reorder_blocks_and_partition ev"
  shows "(\<forall>cs'. connect_traces_loop fuel ev n ft ct i cs = Inr cs' \<longrightarrow> nothing_copied cs cs')
   \<and> (\<forall>f. connect_traces_loop fuel ev n ft ct i cs = Inl f \<longrightarrow> f = OUT_OF_FUEL)"
proof (induction fuel arbitrary: i cs)
  case 0
  show ?case by simp
next
  case (Suc fuel)
  show ?case
  proof (cases "i < n \<or> \<not> cold_connected cs")
    case False
    then show ?thesis by (simp add: nothing_copied_refl)
  next
    case True
    obtain cs1 t where r: "(if flag_reorder_blocks_and_partition ev
                     \<and> (i \<ge> n \<or> unconnected_hot_trace_count cs \<le> 0)
                     \<and> \<not> cold_connected cs
                  then (case unmark_cold_traces (map int [0..<nat n]) (cs, -1) of
                          (cs', first_cold_trace) \<Rightarrow>
                            (cs'\<lparr>cold_connected := True\<rparr>, first_cold_trace))
                  else (cs, i)) = (cs1, t)"
      by (cases "(if flag_reorder_blocks_and_partition ev
                     \<and> (i \<ge> n \<or> unconnected_hot_trace_count cs \<le> 0)
                     \<and> \<not> cold_connected cs
                  then (case unmark_cold_traces (map int [0..<nat n]) (cs, -1) of
                          (cs', first_cold_trace) \<Rightarrow>
                            (cs'\<lparr>cold_connected := True\<rparr>, first_cold_trace))
                  else (cs, i))")
    have c1: "nothing_copied cs cs1"
    proof (cases "flag_reorder_blocks_and_partition ev
                     \<and> (i \<ge> n \<or> unconnected_hot_trace_count cs \<le> 0)
                     \<and> \<not> cold_connected cs")
      case False
      with r show ?thesis by (auto simp: nothing_copied_refl)
    next
      case True
      obtain cs' f' where u: "unmark_cold_traces (map int [0..<nat n]) (cs, -1) = (cs', f')"
        by (cases "unmark_cold_traces (map int [0..<nat n]) (cs, -1)")
      with True r have "cs1 = cs'\<lparr>cold_connected := True\<rparr>" by simp
      with unmark_cold_traces_nothing_copied [OF u] show ?thesis
        by (simp add: nothing_copied_def)
    qed
    show ?thesis
    proof (cases "connected cs1 t")
      case c: True
      have step: "connect_traces_loop (Suc fuel) ev n ft ct i cs
                    = connect_traces_loop fuel ev n ft ct (t + 1) cs1"
        using True r c by (simp del: unmark_cold_traces.simps)
      from Suc.IH [of "t + 1" cs1] c1 show ?thesis
        unfolding step by (auto intro: nothing_copied_trans)
    next
      case c: False
      define cs1' where "cs1' = count_down (cs1\<lparr>connected := (connected cs1)(t := True)\<rparr>)"
      have c1': "nothing_copied cs cs1'"
        using c1 by (simp add: cs1'_def nothing_copied_def count_down_def)
      show ?thesis
      proof (cases "connect_predecessors fuel t cs1'")
        case (Inl f)
        then have "f = OUT_OF_FUEL" using connect_predecessors_nothing_copied by blast
        moreover have "connect_traces_loop (Suc fuel) ev n ft ct i cs = Inl f"
          using True r c Inl by (simp add: cs1'_def del: unmark_cold_traces.simps)
        ultimately show ?thesis by simp
      next
        case (Inr p)
        obtain cs2 t2 where p: "p = (cs2, t2)" by (cases p)
        have c2: "nothing_copied cs1' cs2"
          using Inr p connect_predecessors_nothing_copied by blast
        define cs3 where "cs3 = (if last_trace cs2 \<ge> 0
                                      then cs2\<lparr>graph :=
                                             upd_bb (last_t (traces cs2 (last_trace cs2)))
                                               (\<lambda>x. x\<lparr>rbi_next := Some (first (traces cs2 t2))\<rparr>)
                                               (graph cs2)\<rparr>
                                      else cs2)\<lparr>last_trace := t\<rparr>"
        have c3: "nothing_copied cs cs3"
          using c1' c2 by (simp add: cs3_def nothing_copied_def)
        show ?thesis
        proof (cases "connect_successors fuel ev ft ct t cs3")
          case (Inl f)
          then have "f = OUT_OF_FUEL"
            using connect_successors_nothing_copied [OF assms] by blast
          moreover have "connect_traces_loop (Suc fuel) ev n ft ct i cs = Inl f"
            using True r c Inr p Inl
            by (simp add: cs1'_def cs3_def Let_def del: unmark_cold_traces.simps)
          ultimately show ?thesis by simp
        next
          case s: (Inr cs4)
          have c4: "nothing_copied cs cs4"
            using c3 s connect_successors_nothing_copied [OF assms]
            by (blast intro: nothing_copied_trans)
          have step: "connect_traces_loop (Suc fuel) ev n ft ct i cs
                        = connect_traces_loop fuel ev n ft ct (t + 1) cs4"
            using True r c Inr p s
            by (simp add: cs1'_def cs3_def Let_def del: unmark_cold_traces.simps)
          from Suc.IH [of "t + 1" cs4] c4 show ?thesis
            unfolding step by (auto intro: nothing_copied_trans)
        qed
      qed
    qed
  qed
qed

text \<open>
  Claim C7.  With \<open>flag_reorder_blocks_and_partition\<close> set, whatever the graph, the traces,
  the thresholds and the answers of \<open>copy_bb_p\<close> are: when \<open>connect_traces\<close> returns,
  \<open>duplicate_block\<close> has not been called and the graph has the blocks it had before;
  and \<open>connect_traces\<close> does not abort (the only \<open>abort ()\<close> is in \<open>copy_bb\<close>).
\<close>

theorem connect_traces_never_duplicates:
  assumes "flag_reorder_blocks_and_partition ev"
  shows "(\<forall>cs'. connect_traces fuel ev max_entry_frequency max_entry_cnt n_traces cs = Inr cs'
            \<longrightarrow> duplicated cs' = duplicated cs
                \<and> bb_chain (graph cs') = bb_chain (graph cs)
                \<and> last_basic_block (graph cs') = last_basic_block (graph cs))
       \<and> connect_traces fuel ev max_entry_frequency max_entry_cnt n_traces cs \<noteq> Inl ABORT"
proof -
  define cs0 where "cs0 = cs\<lparr>connected := (\<lambda>i. False), cold_traces := (\<lambda>i. False),
                   unconnected_hot_trace_count := 0, cold_connected := True,
                   last_trace := -1\<rparr>"
  define cs1 where "cs1 = mark_cold_traces (map int [0..<nat n_traces]) cs0"
  have "nothing_copied cs cs0" by (simp add: cs0_def nothing_copied_def)
  moreover have "nothing_copied cs0 cs1"
    unfolding cs1_def by (rule mark_cold_traces_nothing_copied)
  ultimately have c: "nothing_copied cs cs1" by (rule nothing_copied_trans)
  obtain ft ct where run: "connect_traces fuel ev max_entry_frequency max_entry_cnt n_traces cs
                 = connect_traces_loop fuel ev n_traces ft ct 0 cs1"
    using assms by (simp add: connect_traces_def Let_def cs0_def cs1_def)
  note l = connect_traces_loop_nothing_copied [OF assms, of fuel n_traces ft ct 0 cs1]
  show ?thesis
  proof (intro conjI allI impI)
    fix cs'
    assume "connect_traces fuel ev max_entry_frequency max_entry_cnt n_traces cs = Inr cs'"
    with run l have "nothing_copied cs1 cs'" by simp
    with c have n: "nothing_copied cs cs'" by (rule nothing_copied_trans)
    then show "duplicated cs' = duplicated cs" "bb_chain (graph cs') = bb_chain (graph cs)"
      "last_basic_block (graph cs') = last_basic_block (graph cs)"
      by (simp_all add: nothing_copied_def)
  next
    show "connect_traces fuel ev max_entry_frequency max_entry_cnt n_traces cs \<noteq> Inl ABORT"
      using run l by auto
  qed
qed

text \<open>
  On \<open>join_state\<close> with partitioning the two traces are chained (block 1 is followed by
  block 2) and nothing is copied.  Without partitioning the same input makes
  \<open>connect_traces\<close> copy block 1 behind block 2.
\<close>

theorem connect_traces_never_duplicates_witness:
  "(case connect_traces 5 example_env 100 0 2 join_state of
      Inl f \<Rightarrow> False
    | Inr cs' \<Rightarrow> duplicated cs' = []
                 \<and> rbi_next (blocks (graph cs') (BB 1)) = Some (BB 2)
                 \<and> rbi_next (blocks (graph cs') (BB 2)) = None)
   \<and> (case connect_traces 5 (example_env\<lparr>flag_reorder_blocks_and_partition := False\<rparr>)
              100 0 2 join_state of
         Inl f \<Rightarrow> False
       | Inr cs' \<Rightarrow> duplicated cs' = [(BB 1, 2)]
                    \<and> rbi_next (blocks (graph cs') (BB 2)) = Some (BB 1))"
proof -
  have flag: "flag_reorder_blocks_and_partition example_env"
    by (simp add: example_env_def)
  have on: "case connect_traces 5 example_env 100 0 2 join_state of
      Inl f \<Rightarrow> False
    | Inr cs' \<Rightarrow> rbi_next (blocks (graph cs') (BB 1)) = Some (BB 2)
                 \<and> rbi_next (blocks (graph cs') (BB 2)) = None"
    by code_simp
  have off: "case connect_traces 5 (example_env\<lparr>flag_reorder_blocks_and_partition := False\<rparr>)
              100 0 2 join_state of
         Inl f \<Rightarrow> False
       | Inr cs' \<Rightarrow> duplicated cs' = [(BB 1, 2)]
                    \<and> rbi_next (blocks (graph cs') (BB 2)) = Some (BB 1)"
    by code_simp
  have start: "duplicated join_state = []" by (simp add: join_state_def)
  from connect_traces_never_duplicates [OF flag, of 5 100 0 2 join_state] start
  have "\<forall>cs'. connect_traces 5 example_env 100 0 2 join_state = Inr cs'
           \<longrightarrow> duplicated cs' = []" by simp
  with on off show ?thesis by (auto split: sum.splits)
qed

end
